theory Spec2Isabelle
  imports Complex_Main
begin

section \<open>Ventilator waveform simulator: data model\<close>

text \<open>
  The repository holds two variants of one PyQt program, \<^verbatim>\<open>sm3.py\<close> and
  \<^verbatim>\<open>prog2-0.py\<close>. Both define the class \<^verbatim>\<open>VentilatorSimulator\<close>; its instance
  fields are the record \<open>simulator\<close> below. Python floats are modelled as real numbers,
  so the theorems are about the formulas the code evaluates, not about rounding; the
  tests that choose a branch are stated on the values the code compares.
  Widget calls that only change what is drawn around the curves (label texts, button
  states, showing and hiding control groups) are left out; the data handed to the three
  curves and the X range of the three graphs are fields of the record.
\<close>

datatype py_error = ZeroDivisionError | AttributeError | IndexError

text \<open>The tuple \<^verbatim>\<open>(self.time_index, pressure, flow, volume)\<close> that
  \<^verbatim>\<open>generate_next_point\<close> returns.\<close>

record point =
  time :: real
  pressure :: real
  flow :: real
  volume :: real

text \<open>A \<^verbatim>\<open>QTimer\<close>: whether it runs, its interval in milliseconds, and the calls
  it has received, oldest first.\<close>

datatype timer_call = Stop | Start int

record qtimer =
  active :: bool
  interval :: int
  calls :: "timer_call list"

record simulator =
  resp_rate :: real
  tidal_volume :: real
  peep :: real
  peak_pressure :: real
  ie_ratio :: real
  time_index :: real
  start_time :: "int option"
  base_speed :: int
  ventilation_mode :: string
  pressure_support :: real
  plateau_time :: real
  resistance :: real
  compliance :: real
  max_cycles :: int
  points_per_cycle :: int
  current_point :: int
  time_data :: "real list"
  pressure_data :: "real list"
  flow_data :: "real list"
  volume_data :: "real list"
  timer :: "qtimer option"
  pressure_curve :: "real list \<times> real list"
  flow_curve :: "real list \<times> real list"
  volume_curve :: "real list \<times> real list"
  pressure_xrange :: "real \<times> real"
  flow_xrange :: "real \<times> real"
  volume_xrange :: "real \<times> real"

section \<open>Python arithmetic\<close>

text \<open>Sequencing of computations that may raise: the first error ends the computation.\<close>

definition err_bind :: "py_error + 'a \<Rightarrow> ('a \<Rightarrow> py_error + 'b) \<Rightarrow> py_error + 'b" where
  "err_bind m f = (case m of Inl e \<Rightarrow> Inl e | Inr v \<Rightarrow> f v)"

text \<open>Division and remainder of Python floats raise \<^verbatim>\<open>ZeroDivisionError\<close> on a zero
  divisor; the remainder has the sign of the divisor.\<close>

definition py_div :: "real \<Rightarrow> real \<Rightarrow> py_error + real" where
  "py_div a b = (if b = 0 then Inl ZeroDivisionError else Inr (a / b))"

definition py_mod :: "real \<Rightarrow> real \<Rightarrow> py_error + real" where
  "py_mod a b = (if b = 0 then Inl ZeroDivisionError else Inr (a - b * of_int \<lfloor>a / b\<rfloor>))"

text \<open>\<^verbatim>\<open>int(x)\<close> on a float truncates toward zero.\<close>

definition py_int :: "real \<Rightarrow> int" where
  "py_int x = (if 0 \<le> x then \<lfloor>x\<rfloor> else \<lceil>x\<rceil>)"

text \<open>\<^verbatim>\<open>round(x, 1)\<close>: one decimal, ties to the even neighbour.\<close>

definition round_half_even :: "real \<Rightarrow> int" where
  "round_half_even x =
     (let f = \<lfloor>x\<rfloor>; d = x - of_int f
      in if d < 1 / 2 then f else if 1 / 2 < d then f + 1 else if even f then f else f + 1)"

definition py_round1 :: "real \<Rightarrow> real" where
  "py_round1 x = of_int (round_half_even (x * 10)) / 10"

section \<open>The waveform generator\<close>

text \<open>\<^verbatim>\<open>calcular_flujo_insp\<close> (sm3.py). The quotient defining \<open>k\<close> is a NumPy
  division, which does not raise; its divisor is the inspiratory time, which is positive
  wherever the function is called.\<close>

definition calcular_flujo_insp :: "real \<Rightarrow> real \<Rightarrow> real" where
  "calcular_flujo_insp ti ti_total =
     (let flujo_inicial = 38; flujo_final = 9;
          k = - ln (flujo_final / flujo_inicial) / ti_total
      in flujo_inicial * exp (- k * ti))"

text \<open>The first lines of \<^verbatim>\<open>generate_next_point\<close>, the same in both files: the cycle
  timing \<open>(total_time, insp_time, exp_time)\<close>. (\<^verbatim>\<open>esp_time\<close> is computed by the source
  and never read.)\<close>

definition cycle_timing :: "simulator \<Rightarrow> py_error + (real \<times> real \<times> real)" where
  "cycle_timing s =
     err_bind (py_div 60 (max 1 (resp_rate s))) (\<lambda>total_time.
     err_bind (py_div 1 (ie_ratio s)) (\<lambda>inv_ie.
     err_bind (py_div 1 (1 + inv_ie)) (\<lambda>insp_frac.
     err_bind (py_div 1 (1 + ie_ratio s)) (\<lambda>exp_frac.
       Inr (total_time, total_time * insp_frac, total_time * exp_frac)))))"

text \<open>\<open>(cycle_progress, current_time_in_cycle)\<close>.\<close>

definition cycle_position :: "simulator \<Rightarrow> real \<Rightarrow> py_error + (real \<times> real)" where
  "cycle_position s total_time =
     err_bind (py_mod (time_index s) total_time) (\<lambda>r.
     err_bind (py_div r total_time) (\<lambda>cycle_progress.
       Inr (cycle_progress, r)))"

text \<open>
  The branches of \<^verbatim>\<open>generate_next_point\<close> are functions of the values the first
  lines have computed, so that what a branch returns can be stated for these values
  whatever they are. Every test of the source compares two such values: \<open>t\<close> stands for
  the value of \<^verbatim>\<open>cycle_progress * total_time\<close> (named \<^verbatim>\<open>current_time_in_cycle\<close> in the
  pressure-controlled branch), and \<open>plateau_end\<close> for the value of
  \<^verbatim>\<open>ramp_time + plateau_time\<close>.
\<close>

text \<open>Volume-controlled mode, inspiratory phase, as in sm3.py.\<close>

definition vc_inspiration :: "simulator \<Rightarrow> real \<Rightarrow> real \<Rightarrow> real \<Rightarrow> py_error + point" where
  "vc_inspiration s insp_time t current_time_in_cycle =
     err_bind (py_div t insp_time) (\<lambda>x.
       let ti_transcurrido = current_time_in_cycle;
           fl = calcular_flujo_insp ti_transcurrido insp_time;
           vol = tidal_volume s * 0.5 * (1 - cos (pi * x))
       in err_bind
            (if current_time_in_cycle < insp_time
             then err_bind (py_div current_time_in_cycle insp_time) (\<lambda>x.
                    Inr (peep s + (peak_pressure s - peep s) * (1 - exp (- 2 * x))))
             else Inr (peep s))
            (\<lambda>pr. Inr \<lparr>time = time_index s, pressure = pr, flow = fl, volume = vol\<rparr>))"

text \<open>Volume-controlled mode, inspiratory phase, as in prog2-0.py: constant flow,
  linear volume, and a pressure rise with rate constant 4.\<close>

definition vc_inspiration_prog2 :: "simulator \<Rightarrow> real \<Rightarrow> real \<Rightarrow> real \<Rightarrow> py_error + point" where
  "vc_inspiration_prog2 s insp_time t current_time_in_cycle =
     err_bind (py_div t insp_time) (\<lambda>x.
     err_bind (py_div (tidal_volume s) 500) (\<lambda>q.
       let fl = 30 * q
       in err_bind (py_div current_time_in_cycle insp_time) (\<lambda>y.
            let vol = tidal_volume s * y;
                pr = peep s + (peak_pressure s - peep s) * (1 - exp (- 4 * x))
            in Inr \<lparr>time = time_index s, pressure = pr, flow = fl, volume = vol\<rparr>)))"

text \<open>Volume-controlled mode, expiratory phase (the same in both files). The nested
  test \<^verbatim>\<open>if self.peep <= 1\<close> under the \<^verbatim>\<open>else\<close> of \<^verbatim>\<open>if self.peep > 1\<close> always
  holds for a real number.\<close>

definition vc_expiration :: "simulator \<Rightarrow> real \<Rightarrow> real \<Rightarrow> real \<Rightarrow> py_error + point" where
  "vc_expiration s insp_time exp_time t =
     err_bind (py_div (t - insp_time) exp_time) (\<lambda>x.
       let fl = - 50 * exp (- 7 * x);
           pr = (if 1 < peep s then peep s else peep s + 0.4);
           vol = tidal_volume s * exp (- 8 * x)
       in Inr \<lparr>time = time_index s, pressure = pr, flow = fl, volume = vol\<rparr>)"

text \<open>The volume-controlled branch: the test
  \<^verbatim>\<open>if cycle_progress * total_time < insp_time\<close> chooses the phase.\<close>

definition vc_point :: "simulator \<Rightarrow> real \<Rightarrow> real \<Rightarrow> real \<Rightarrow> real \<Rightarrow> py_error + point" where
  "vc_point s insp_time exp_time t current_time_in_cycle =
     (if t < insp_time
      then vc_inspiration s insp_time t current_time_in_cycle
      else vc_expiration s insp_time exp_time t)"

definition vc_point_prog2 :: "simulator \<Rightarrow> real \<Rightarrow> real \<Rightarrow> real \<Rightarrow> real \<Rightarrow> py_error + point" where
  "vc_point_prog2 s insp_time exp_time t current_time_in_cycle =
     (if t < insp_time
      then vc_inspiration_prog2 s insp_time t current_time_in_cycle
      else vc_expiration s insp_time exp_time t)"

text \<open>Pressure-controlled mode (the same in both files): pressure, flow and volume are
  computed one after the other, each by its own chain of tests.\<close>

definition pc_pressure ::
  "simulator \<Rightarrow> real \<Rightarrow> real \<Rightarrow> real \<Rightarrow> real \<Rightarrow> real \<Rightarrow> real \<Rightarrow> py_error + real" where
  "pc_pressure s insp_time exp_time ramp_time plateau plateau_end t =
     (if t < ramp_time then
        err_bind (py_div t ramp_time) (\<lambda>x.
          Inr (peep s + pressure_support s * (1 - exp (- 5 * x))))
      else if t < plateau_end then
        Inr (peep s + pressure_support s)
      else if t < insp_time then
        err_bind (py_div (t - ramp_time - plateau) (insp_time - ramp_time - plateau)) (\<lambda>x.
          Inr (peep s + pressure_support s * exp (- 8 * x)))
      else
        err_bind (py_div (t - insp_time) exp_time) (\<lambda>x.
          Inr (peep s + (peak_pressure s - peep s) * exp (- 5 * x))))"

definition pc_flow :: "real \<Rightarrow> real \<Rightarrow> real \<Rightarrow> real \<Rightarrow> real \<Rightarrow> real \<Rightarrow> py_error + real" where
  "pc_flow peak_flow insp_time exp_time ramp_time plateau_end t =
     (if t < ramp_time then
        err_bind (py_div t ramp_time) (\<lambda>x. Inr (peak_flow * (1 - x ^ 2)))
      else if t < plateau_end then
        Inr (peak_flow * 0.3)
      else if t < insp_time then
        Inr (peak_flow * 0.1)
      else
        err_bind (py_div (t - insp_time) exp_time) (\<lambda>x.
          Inr (- peak_flow * 0.7 * exp (- 6 * x))))"

definition pc_volume ::
  "simulator \<Rightarrow> real \<Rightarrow> real \<Rightarrow> real \<Rightarrow> real \<Rightarrow> real \<Rightarrow> real \<Rightarrow> py_error + real" where
  "pc_volume s insp_time exp_time ramp_time plateau plateau_end t =
     (if t < insp_time then
        (if t < ramp_time then
           err_bind (py_div t ramp_time) (\<lambda>x.
             Inr (tidal_volume s * 0.5 * (1 - cos (pi * x / 2))))
         else if t < plateau_end then
           err_bind (py_div (t - ramp_time) plateau) (\<lambda>x.
             Inr (tidal_volume s * (0.5 + 0.4 * x)))
         else
           err_bind (py_div (t - ramp_time - plateau) (insp_time - ramp_time - plateau)) (\<lambda>x.
             Inr (tidal_volume s * (0.9 + 0.1 * (1 - x)))))
      else
        err_bind (py_div (t - insp_time) exp_time) (\<lambda>x.
          Inr (tidal_volume s * exp (- 5 * x))))"

definition pc_phases ::
  "simulator \<Rightarrow> real \<Rightarrow> real \<Rightarrow> real \<Rightarrow> real \<Rightarrow> real \<Rightarrow> real \<Rightarrow> py_error + point" where
  "pc_phases s insp_time exp_time ramp_time plateau plateau_end t =
     err_bind (pc_pressure s insp_time exp_time ramp_time plateau plateau_end t) (\<lambda>pr.
     err_bind (py_div (pressure_support s) (resistance s)) (\<lambda>q.
       let peak_flow = q * 60
       in err_bind (pc_flow peak_flow insp_time exp_time ramp_time plateau_end t) (\<lambda>fl.
          err_bind (pc_volume s insp_time exp_time ramp_time plateau plateau_end t) (\<lambda>vol.
            Inr \<lparr>time = time_index s, pressure = pr, flow = fl, volume = vol\<rparr>))))"

text \<open>The pressure-controlled branch. (\<^verbatim>\<open>release_time\<close> is computed by the source and
  never read.)\<close>

definition pc_point ::
  "simulator \<Rightarrow> real \<Rightarrow> real \<Rightarrow> real \<Rightarrow> real \<Rightarrow> py_error + point" where
  "pc_point s total_time insp_time exp_time cycle_progress =
     (let ramp_time = insp_time * 0.2;
          plateau = min (plateau_time s) (insp_time * 0.5);
          release_time = insp_time * 0.1;
          current_time_in_cycle = cycle_progress * total_time
      in pc_phases s insp_time exp_time ramp_time plateau (ramp_time + plateau)
           current_time_in_cycle)"

text \<open>\<^verbatim>\<open>generate_next_point\<close> of sm3.py. Here the values are computed on real
  numbers. The source computes them on doubles, so that at an elapsed time on the
  boundary of a phase the values it compares, and with them the branch it takes, can
  differ from those of this function; what a branch returns for the values it is given
  does not depend on that.\<close>

definition generate_next_point :: "simulator \<Rightarrow> py_error + point" where
  "generate_next_point s =
     err_bind (cycle_timing s) (\<lambda>(total_time, insp_time, exp_time).
     err_bind (cycle_position s total_time) (\<lambda>(cycle_progress, current_time_in_cycle).
       if ventilation_mode s = ''VC-CMV''
       then vc_point s insp_time exp_time (cycle_progress * total_time) current_time_in_cycle
       else pc_point s total_time insp_time exp_time cycle_progress))"

text \<open>\<^verbatim>\<open>generate_next_point\<close> of prog2-0.py: it differs from the one of sm3.py in
  the inspiratory phase of the volume-controlled mode only.\<close>

definition generate_next_point_prog2 :: "simulator \<Rightarrow> py_error + point" where
  "generate_next_point_prog2 s =
     err_bind (cycle_timing s) (\<lambda>(total_time, insp_time, exp_time).
     err_bind (cycle_position s total_time) (\<lambda>(cycle_progress, current_time_in_cycle).
       if ventilation_mode s = ''VC-CMV''
       then vc_point_prog2 s insp_time exp_time (cycle_progress * total_time) current_time_in_cycle
       else pc_point s total_time insp_time exp_time cycle_progress))"

section \<open>The sample history and the visible window\<close>

text \<open>\<^verbatim>\<open>reset_buffers\<close> (sm3.py).\<close>

definition reset_buffers :: "simulator \<Rightarrow> simulator" where
  "reset_buffers s =
     s\<lparr>time_data := [], pressure_data := [], flow_data := [], volume_data := [],
       current_point := 0, time_index := 0, start_time := None\<rparr>"

text \<open>The first lines of \<^verbatim>\<open>update_graphs\<close>. The argument \<open>now\<close> is the reading of
  \<^verbatim>\<open>QTime.currentTime()\<close> in milliseconds; \<^verbatim>\<open>msecsTo\<close> is the difference of two
  readings. (A \<^verbatim>\<open>QTime\<close> is a time of day: the readings of one day do not decrease, and
  they start again at midnight.)\<close>

definition sync_clock :: "simulator \<Rightarrow> int \<Rightarrow> simulator" where
  "sync_clock s now =
     (case start_time s of
        None \<Rightarrow> s\<lparr>start_time := Some now, time_index := 0\<rparr>
      | Some st \<Rightarrow> s\<lparr>time_index := real_of_int (now - st) / 1000\<rparr>)"

text \<open>The slice \<^verbatim>\<open>a[-n:]\<close>: the last \<open>n\<close> entries for a positive \<open>n\<close>, all of \<open>a\<close>
  for \<open>n = 0\<close>, and \<open>a\<close> without its first \<open>-n\<close> entries for a negative \<open>n\<close>.\<close>

definition last_slice :: "int \<Rightarrow> 'a list \<Rightarrow> 'a list" where
  "last_slice n xs = (if 0 < n then drop (length xs - nat n) xs else drop (nat (- n)) xs)"

text \<open>Appending the new point and keeping the last \<open>max_points\<close> entries.\<close>

definition max_points :: "simulator \<Rightarrow> int" where
  "max_points s = points_per_cycle s * max_cycles s"

definition append_point :: "simulator \<Rightarrow> point \<Rightarrow> simulator" where
  "append_point s p =
     (let s1 = s\<lparr>time_data := time_data s @ [time p],
                 pressure_data := pressure_data s @ [pressure p],
                 flow_data := flow_data s @ [flow p],
                 volume_data := volume_data s @ [volume p]\<rparr>
      in if int (length (time_data s1)) > max_points s1
         then s1\<lparr>time_data := last_slice (max_points s1) (time_data s1),
                 pressure_data := last_slice (max_points s1) (pressure_data s1),
                 flow_data := last_slice (max_points s1) (flow_data s1),
                 volume_data := last_slice (max_points s1) (volume_data s1)\<rparr>
         else s1)"

text \<open>Indexing an array by a Boolean mask: the entries at the positions where the mask
  holds; a mask of another length is an \<^verbatim>\<open>IndexError\<close>.\<close>

definition mask_index :: "'a list \<Rightarrow> bool list \<Rightarrow> py_error + 'a list" where
  "mask_index xs sel =
     (if length sel \<noteq> length xs then Inl IndexError
      else Inr (map fst (filter snd (zip xs sel))))"

definition window_size :: real where
  "window_size = 10"

definition window_bounds :: "simulator \<Rightarrow> real \<times> real" where
  "window_bounds s =
     (let t_max = (if length (time_data s) > 0 then last (time_data s) else 0);
          t_min = max 0 (t_max - window_size)
      in (t_min, t_max))"

text \<open>The last lines of \<^verbatim>\<open>update_graphs\<close>: the visible window is handed to the three
  curves and the X range of the three graphs is moved.\<close>

definition show_window :: "simulator \<Rightarrow> py_error + simulator" where
  "show_window s =
     (let t_min = fst (window_bounds s);
          t_max = snd (window_bounds s);
          sel = map (\<lambda>t. t_min \<le> t \<and> t \<le> t_max) (time_data s)
      in err_bind (mask_index (time_data s) sel) (\<lambda>ts.
         err_bind (mask_index (pressure_data s) sel) (\<lambda>ps.
         err_bind (mask_index (flow_data s) sel) (\<lambda>fs.
         err_bind (mask_index (volume_data s) sel) (\<lambda>vs.
           Inr (s\<lparr>pressure_curve := (ts, ps), flow_curve := (ts, fs), volume_curve := (ts, vs),
                   pressure_xrange := (t_min, t_max), flow_xrange := (t_min, t_max),
                   volume_xrange := (t_min, t_max)\<rparr>))))))"

text \<open>\<^verbatim>\<open>update_graphs\<close>, the slot of the timer, for sm3.py and for prog2-0.py.\<close>

definition update_graphs :: "simulator \<Rightarrow> int \<Rightarrow> py_error + simulator" where
  "update_graphs s now =
     (let s1 = sync_clock s now
      in err_bind (generate_next_point s1) (\<lambda>p. show_window (append_point s1 p)))"

definition update_graphs_prog2 :: "simulator \<Rightarrow> int \<Rightarrow> py_error + simulator" where
  "update_graphs_prog2 s now =
     (let s1 = sync_clock s now
      in err_bind (generate_next_point_prog2 s1) (\<lambda>p. show_window (append_point s1 p)))"

section \<open>The timer and the setters\<close>

definition timer_stop :: "qtimer \<Rightarrow> qtimer" where
  "timer_stop tm = tm\<lparr>active := False, calls := calls tm @ [Stop]\<rparr>"

definition timer_start :: "qtimer \<Rightarrow> int \<Rightarrow> qtimer" where
  "timer_start tm i = tm\<lparr>active := True, interval := i, calls := calls tm @ [Start i]\<rparr>"

text \<open>\<^verbatim>\<open>update_animation_speed\<close> (both files): the timer is stopped if there is one,
  the interval is computed, and the timer is started; without a timer the last step is an
  \<^verbatim>\<open>AttributeError\<close>.\<close>

definition update_animation_speed :: "simulator \<Rightarrow> py_error + simulator" where
  "update_animation_speed s =
     (let s1 = (case timer s of None \<Rightarrow> s | Some tm \<Rightarrow> s\<lparr>timer := Some (timer_stop tm)\<rparr>);
          min_interval = 10;
          max_interval = 100
      in err_bind (py_div 1000 (resp_rate s1)) (\<lambda>q.
           let i = max min_interval (min max_interval (py_int q))
           in case timer s1 of
                None \<Rightarrow> Inl AttributeError
              | Some tm \<Rightarrow> Inr (s1\<lparr>timer := Some (timer_start tm i)\<rparr>)))"

definition start_simulation :: "simulator \<Rightarrow> py_error + simulator" where
  "start_simulation s =
     update_animation_speed (s\<lparr>timer := Some \<lparr>active = False, interval = 0, calls = []\<rparr>\<rparr>)"

definition set_ventilation_mode :: "simulator \<Rightarrow> string \<Rightarrow> simulator" where
  "set_ventilation_mode s m = reset_buffers (s\<lparr>ventilation_mode := m\<rparr>)"

definition set_resp_rate :: "simulator \<Rightarrow> real \<Rightarrow> py_error + simulator" where
  "set_resp_rate s v = update_animation_speed (s\<lparr>resp_rate := v\<rparr>)"

definition set_tidal_volume :: "simulator \<Rightarrow> real \<Rightarrow> simulator" where
  "set_tidal_volume s v = s\<lparr>tidal_volume := v\<rparr>"

definition set_peep :: "simulator \<Rightarrow> real \<Rightarrow> simulator" where
  "set_peep s v = s\<lparr>peep := v\<rparr>"

definition set_peak_pressure :: "simulator \<Rightarrow> real \<Rightarrow> simulator" where
  "set_peak_pressure s v = s\<lparr>peak_pressure := v\<rparr>"

definition set_ie_ratio :: "simulator \<Rightarrow> real \<Rightarrow> simulator" where
  "set_ie_ratio s v = s\<lparr>ie_ratio := py_round1 v\<rparr>"

definition set_pressure_support :: "simulator \<Rightarrow> real \<Rightarrow> simulator" where
  "set_pressure_support s v = s\<lparr>pressure_support := v, peak_pressure := peep s + v\<rparr>"

definition set_plateau_time :: "simulator \<Rightarrow> real \<Rightarrow> simulator" where
  "set_plateau_time s v = s\<lparr>plateau_time := v\<rparr>"

definition set_resistance :: "simulator \<Rightarrow> real \<Rightarrow> simulator" where
  "set_resistance s v = s\<lparr>resistance := v\<rparr>"

definition set_compliance :: "simulator \<Rightarrow> real \<Rightarrow> simulator" where
  "set_compliance s v = s\<lparr>compliance := v\<rparr>"

text \<open>The fields as \<^verbatim>\<open>__init__\<close> sets them, before \<^verbatim>\<open>start_simulation\<close>.\<close>

definition initial_fields :: simulator where
  "initial_fields =
     \<lparr>resp_rate = 15, tidal_volume = 500, peep = 5, peak_pressure = 20, ie_ratio = 1.2,
      time_index = 0, start_time = None, base_speed = 30, ventilation_mode = ''VC-CMV'',
      pressure_support = 15, plateau_time = 0.3, resistance = 10, compliance = 0.05,
      max_cycles = 3, points_per_cycle = 200, current_point = 0,
      time_data = [], pressure_data = [], flow_data = [], volume_data = [],
      timer = None,
      pressure_curve = ([], []), flow_curve = ([], []), volume_curve = ([], []),
      pressure_xrange = (0, 0), flow_xrange = (0, 0), volume_xrange = (0, 0)\<rparr>"

text \<open>What happens to a simulator: a tick of the timer with the clock reading, a click on
  a mode button, or a call of a parameter setter by a control (or, in prog2-0.py, by the
  automatic adjustment).\<close>

datatype setting =
    RespRate real
  | TidalVolume real
  | Peep real
  | PeakPressure real
  | IeRatio real
  | PressureSupport real
  | PlateauTime real
  | Resistance real
  | Compliance real

datatype event =
    Tick int
  | SetVentilationMode string
  | Set setting

text \<open>The parameter setters are the same in both files.\<close>

fun apply_setting :: "simulator \<Rightarrow> setting \<Rightarrow> py_error + simulator" where
  "apply_setting s (RespRate v) = set_resp_rate s v"
| "apply_setting s (TidalVolume v) = Inr (set_tidal_volume s v)"
| "apply_setting s (Peep v) = Inr (set_peep s v)"
| "apply_setting s (PeakPressure v) = Inr (set_peak_pressure s v)"
| "apply_setting s (IeRatio v) = Inr (set_ie_ratio s v)"
| "apply_setting s (PressureSupport v) = Inr (set_pressure_support s v)"
| "apply_setting s (PlateauTime v) = Inr (set_plateau_time s v)"
| "apply_setting s (Resistance v) = Inr (set_resistance s v)"
| "apply_setting s (Compliance v) = Inr (set_compliance s v)"

text \<open>The two files. prog2-0.py connects its mode buttons to \<^verbatim>\<open>set_ventilation_mode\<close>
  and defines no such method, so that a click raises an \<^verbatim>\<open>AttributeError\<close>.\<close>

datatype variant = Sm3 | Prog2

fun generator :: "variant \<Rightarrow> simulator \<Rightarrow> py_error + point" where
  "generator Sm3 = generate_next_point"
| "generator Prog2 = generate_next_point_prog2"

fun handle :: "variant \<Rightarrow> simulator \<Rightarrow> event \<Rightarrow> py_error + simulator" where
  "handle Sm3 s (Tick now) = update_graphs s now"
| "handle Prog2 s (Tick now) = update_graphs_prog2 s now"
| "handle Sm3 s (SetVentilationMode m) = Inr (set_ventilation_mode s m)"
| "handle Prog2 s (SetVentilationMode m) = Inl AttributeError"
| "handle v s (Set x) = apply_setting s x"

text \<open>A run of events stops at the first one that raises.\<close>

fun run :: "variant \<Rightarrow> simulator \<Rightarrow> event list \<Rightarrow> py_error + simulator" where
  "run v s [] = Inr s"
| "run v s (e # es) = err_bind (handle v s e) (\<lambda>s'. run v s' es)"

text \<open>The clock readings of the ticks in a run, oldest first.\<close>

fun tick_times :: "event list \<Rightarrow> int list" where
  "tick_times [] = []"
| "tick_times (Tick now # es) = now # tick_times es"
| "tick_times (e # es) = tick_times es"

section \<open>The statements of the specification\<close>

text \<open>The cycle timing in the words of the specification: the total time of a cycle with
  the rate floored at 1, the inspiratory and the expiratory time, and the time in the
  cycle, \<open>elapsed_time mod total_time\<close>.\<close>

definition spec_total_time :: "simulator \<Rightarrow> real" where
  "spec_total_time s = 60 / max 1 (resp_rate s)"

definition spec_insp_time :: "simulator \<Rightarrow> real" where
  "spec_insp_time s = spec_total_time s / (1 + 1 / ie_ratio s)"

definition spec_exp_time :: "simulator \<Rightarrow> real" where
  "spec_exp_time s = spec_total_time s / (1 + ie_ratio s)"

definition spec_time_in_cycle :: "simulator \<Rightarrow> real" where
  "spec_time_in_cycle s =
     time_index s - spec_total_time s * of_int \<lfloor>time_index s / spec_total_time s\<rfloor>"

text \<open>The point of the inspiratory phase of the volume-controlled mode at the elapsed
  time of \<open>s\<close>, with the timing and the time in the cycle taken on real numbers: as the
  specification gives it (the flow decays from 38 to 9 over the phase), and as prog2-0.py
  computes it.\<close>

definition spec_vc_insp_point :: "simulator \<Rightarrow> point" where
  "spec_vc_insp_point s =
     (let x = spec_time_in_cycle s / spec_insp_time s;
          k = ln (38 / 9) / spec_insp_time s
      in \<lparr>time = time_index s,
          pressure = peep s + (peak_pressure s - peep s) * (1 - exp (- 2 * x)),
          flow = 38 * exp (- k * spec_time_in_cycle s),
          volume = tidal_volume s * 0.5 * (1 - cos (pi * x))\<rparr>)"

definition prog2_vc_insp_point :: "simulator \<Rightarrow> point" where
  "prog2_vc_insp_point s =
     (let x = spec_time_in_cycle s / spec_insp_time s
      in \<lparr>time = time_index s,
          pressure = peep s + (peak_pressure s - peep s) * (1 - exp (- 4 * x)),
          flow = 30 * (tidal_volume s / 500),
          volume = tidal_volume s * x\<rparr>)"

text \<open>The point of the expiratory phase of the volume-controlled mode, likewise.\<close>

definition spec_vc_exp_point :: "simulator \<Rightarrow> point" where
  "spec_vc_exp_point s =
     (let x = (spec_time_in_cycle s - spec_insp_time s) / spec_exp_time s
      in \<lparr>time = time_index s,
          pressure = (if 1 < peep s then peep s else peep s + 0.4),
          flow = - 50 * exp (- 7 * x),
          volume = tidal_volume s * exp (- 8 * x)\<rparr>)"

text \<open>The four phases of the pressure-controlled mode (ramp, plateau, release and
  expiration), for the times \<open>ramp_time\<close>, \<open>plateau\<close>, \<open>plateau_end\<close>,
  \<open>inspiratory_time\<close> and \<open>expiratory_time\<close> and the time \<open>t\<close> in the cycle.\<close>

definition spec_pc_point ::
  "simulator \<Rightarrow> real \<Rightarrow> real \<Rightarrow> real \<Rightarrow> real \<Rightarrow> real \<Rightarrow> real \<Rightarrow> point" where
  "spec_pc_point s inspiratory_time expiratory_time ramp_time plateau plateau_end t =
     (let peak_flow = (pressure_support s / resistance s) * 60
      in if t < ramp_time then
           (let x = t / ramp_time
            in \<lparr>time = time_index s,
                pressure = peep s + pressure_support s * (1 - exp (- 5 * x)),
                flow = peak_flow * (1 - x ^ 2),
                volume = tidal_volume s * 0.5 * (1 - cos (pi * x / 2))\<rparr>)
         else if t < plateau_end then
           (let x = (t - ramp_time) / plateau
            in \<lparr>time = time_index s,
                pressure = peep s + pressure_support s,
                flow = 0.3 * peak_flow,
                volume = tidal_volume s * (0.5 + 0.4 * x)\<rparr>)
         else if t < inspiratory_time then
           (let x = (t - ramp_time - plateau) / (inspiratory_time - ramp_time - plateau)
            in \<lparr>time = time_index s,
                pressure = peep s + pressure_support s * exp (- 8 * x),
                flow = 0.1 * peak_flow,
                volume = tidal_volume s * (0.9 + 0.1 * (1 - x))\<rparr>)
         else
           (let x = (t - inspiratory_time) / expiratory_time
            in \<lparr>time = time_index s,
                pressure = peep s + (peak_pressure s - peep s) * exp (- 5 * x),
                flow = - 0.7 * peak_flow * exp (- 6 * x),
                volume = tidal_volume s * exp (- 5 * x)\<rparr>))"







text \<open>The tick interval of the specification, \<open>clamp (1000 / rate) 10 100\<close>, in whole
  milliseconds.\<close>

definition clamp :: "int \<Rightarrow> int \<Rightarrow> int \<Rightarrow> int" where
  "clamp x lo hi = max lo (min hi x)"

definition spec_interval_ms :: "real \<Rightarrow> int" where
  "spec_interval_ms rate = clamp (py_int (1000 / rate)) 10 100"

text \<open>The simulator as \<^verbatim>\<open>__init__\<close> leaves it: \<open>start_simulation initial_fields\<close>
  returns this state.\<close>

definition started :: simulator where
  "started = initial_fields\<lparr>timer := Some \<lparr>active = True, interval = 66, calls = [Stop, Start 66]\<rparr>\<rparr>"

text \<open>The visible window of the specification: its bounds, and the samples of the
  history that lie within them, each a pair of a time and a value.\<close>

definition spec_t_max :: "simulator \<Rightarrow> real" where
  "spec_t_max s = (if time_data s = [] then 0 else last (time_data s))"

definition spec_t_min :: "simulator \<Rightarrow> real" where
  "spec_t_min s = max 0 (spec_t_max s - window_size)"

definition visible :: "simulator \<Rightarrow> real list \<Rightarrow> (real \<times> real) list" where
  "visible s xs =
     filter (\<lambda>(t, x). spec_t_min s \<le> t \<and> t \<le> spec_t_max s) (zip (time_data s) xs)"

text \<open>The two arrays a curve receives for a list of samples.\<close>

definition curve_of :: "(real \<times> real) list \<Rightarrow> real list \<times> real list" where
  "curve_of ps = (map fst ps, map snd ps)"

text \<open>A history of three samples, the first of them older than the window.\<close>

definition window_sample_state :: simulator where
  "window_sample_state =
     initial_fields\<lparr>time_data := [0, 5, 12], pressure_data := [5, 6, 7],
                    flow_data := [38, 20, - 50], volume_data := [0, 250, 500]\<rparr>"

text \<open>A well-formed history: the four buffers have the same length, at most
  \<open>max_points\<close>; the times are sorted; and no time is later than the elapsed time at the
  last clock reading \<open>c\<close> (an unset start time goes with an empty history).\<close>

definition same_lengths :: "simulator \<Rightarrow> bool" where
  "same_lengths s \<longleftrightarrow>
     length (pressure_data s) = length (time_data s) \<and>
     length (flow_data s) = length (time_data s) \<and>
     length (volume_data s) = length (time_data s)"

definition history_ok :: "simulator \<Rightarrow> int \<Rightarrow> bool" where
  "history_ok s c \<longleftrightarrow>
     same_lengths s \<and>
     int (length (time_data s)) \<le> max_points s \<and>
     sorted (time_data s) \<and>
     (case start_time s of
        None \<Rightarrow> time_data s = []
      | Some st \<Rightarrow> st \<le> c \<and> (\<forall>t \<in> set (time_data s). t \<le> real_of_int (c - st) / 1000))"

text \<open>The newest \<open>n\<close> entries of a buffer: the oldest ones, at the head, are dropped.\<close>

definition newest :: "int \<Rightarrow> 'a list \<Rightarrow> 'a list" where
  "newest n xs = drop (length xs - nat n) xs"

text \<open>The simulator after a first tick at the clock reading 1000, and after the I:E
  ratio was then set to 1 and a second tick came at the reading 3000.\<close>

definition after_first_tick :: simulator where
  "after_first_tick =
     started\<lparr>time_index := 0, start_time := Some 1000,
             time_data := [0], pressure_data := [5], flow_data := [38], volume_data := [0],
             pressure_curve := ([0], [5]), flow_curve := ([0], [38]), volume_curve := ([0], [0]),
             pressure_xrange := (0, 0), flow_xrange := (0, 0), volume_xrange := (0, 0)\<rparr>"

definition after_second_tick :: simulator where
  "after_second_tick =
     after_first_tick\<lparr>ie_ratio := 1, time_index := 2,
             time_data := [0, 2], pressure_data := [5, 5], flow_data := [38, - 50],
             volume_data := [0, 500],
             pressure_curve := ([0, 2], [5, 5]), flow_curve := ([0, 2], [38, - 50]),
             volume_curve := ([0, 2], [0, 500]),
             pressure_xrange := (0, 2), flow_xrange := (0, 2), volume_xrange := (0, 2)\<rparr>"


section \<open>Verification\<close>

subsection \<open>Cycle timing\<close>

lemma err_bind_Inr: "err_bind (Inr v) f = f v"
  by (simp add: err_bind_def)

lemma err_bind_Inl: "err_bind (Inl e) f = Inl e"
  by (simp add: err_bind_def)

lemma py_div_ok: "b \<noteq> 0 \<Longrightarrow> py_div a b = Inr (a / b)"
  by (simp add: py_div_def)

lemma spec_total_time_pos: "0 < spec_total_time s"
  by (simp add: spec_total_time_def)

lemma spec_insp_time_pos: "0 < ie_ratio s \<Longrightarrow> 0 < spec_insp_time s"
  using spec_total_time_pos [of s] by (simp add: spec_insp_time_def add_pos_pos)

lemma spec_exp_time_pos: "0 < ie_ratio s \<Longrightarrow> 0 < spec_exp_time s"
  using spec_total_time_pos [of s] by (simp add: spec_exp_time_def add_pos_pos)

lemma spec_insp_lt_total:
  assumes "0 < ie_ratio s" shows "spec_insp_time s < spec_total_time s"
proof -
  have "1 < 1 + 1 / ie_ratio s" using assms by simp
  then have "spec_total_time s / (1 + 1 / ie_ratio s) < spec_total_time s / 1"
    using spec_total_time_pos [of s] assms by (intro divide_strict_left_mono) (auto simp: add_pos_pos)
  then show ?thesis by (simp add: spec_insp_time_def)
qed

lemma spec_time_in_cycle_range:
  "0 \<le> spec_time_in_cycle s" "spec_time_in_cycle s < spec_total_time s"
proof -
  let ?T = "spec_total_time s" and ?t = "time_index s"
  have T: "0 < ?T" by (rule spec_total_time_pos)
  have "?T * of_int \<lfloor>?t / ?T\<rfloor> \<le> ?T * (?t / ?T)"
    using T by (intro mult_left_mono) auto
  also have "\<dots> = ?t" using T by simp
  finally show "0 \<le> spec_time_in_cycle s" by (simp add: spec_time_in_cycle_def)
  have "?t / ?T < of_int \<lfloor>?t / ?T\<rfloor> + 1" by linarith
  then have "?T * (?t / ?T) < ?T * (of_int \<lfloor>?t / ?T\<rfloor> + 1)"
    using T by (intro mult_strict_left_mono) auto
  then have "?t < ?T * (of_int \<lfloor>?t / ?T\<rfloor> + 1)" using T by simp
  then show "spec_time_in_cycle s < ?T" by (simp add: spec_time_in_cycle_def algebra_simps)
qed

lemma cycle_timing_ok:
  assumes "0 < ie_ratio s"
  shows "cycle_timing s = Inr (spec_total_time s, spec_insp_time s, spec_exp_time s)"
proof -
  have a: "max 1 (resp_rate s) \<noteq> 0" by simp
  have b: "ie_ratio s \<noteq> 0" "1 + 1 / ie_ratio s \<noteq> 0" "1 + ie_ratio s \<noteq> 0"
    using assms by (simp_all add: add_pos_pos less_imp_neq [THEN not_sym])
  show ?thesis
    unfolding cycle_timing_def
    by (simp add: py_div_ok a b err_bind_Inr spec_total_time_def spec_insp_time_def spec_exp_time_def)
qed

lemma cycle_position_ok:
  "cycle_position s (spec_total_time s) =
     Inr (spec_time_in_cycle s / spec_total_time s, spec_time_in_cycle s)"
  using spec_total_time_pos [of s]
  by (simp add: cycle_position_def py_mod_def py_div_def err_bind_def spec_time_in_cycle_def)

lemma spec_total_time_nz: "spec_total_time s \<noteq> 0"
  using spec_total_time_pos [of s] by simp

lemma progress_times_total:
  "spec_time_in_cycle s / spec_total_time s * spec_total_time s = spec_time_in_cycle s"
  using spec_total_time_pos [of s] by simp

subsection \<open>The generator, phase by phase\<close>

lemma calcular_flujo_insp_eq:
  "calcular_flujo_insp ti ti_total = 38 * exp (- (ln (38 / 9) / ti_total) * ti)"
proof -
  have "ln (9 / 38 :: real) = - ln (38 / 9)"
    by (simp add: ln_div)
  then show ?thesis by (simp add: calcular_flujo_insp_def Let_def)
qed

lemma generate_vc_inspiration:
  assumes "0 < ie_ratio s" and "ventilation_mode s = ''VC-CMV''"
    and "spec_time_in_cycle s < spec_insp_time s"
  shows "generate_next_point s = Inr (spec_vc_insp_point s)"
proof -
  have nz: "spec_insp_time s \<noteq> 0" using spec_insp_time_pos [OF assms(1)] by simp
  show ?thesis
    using assms(2,3)
    by (simp add: generate_next_point_def cycle_timing_ok [OF assms(1)] cycle_position_ok
        err_bind_Inr spec_total_time_nz vc_point_def vc_inspiration_def py_div_ok nz Let_def
        calcular_flujo_insp_eq spec_vc_insp_point_def)
qed

lemma generate_prog2_vc_inspiration:
  assumes "0 < ie_ratio s" and "ventilation_mode s = ''VC-CMV''"
    and "spec_time_in_cycle s < spec_insp_time s"
  shows "generate_next_point_prog2 s = Inr (prog2_vc_insp_point s)"
proof -
  have nz: "spec_insp_time s \<noteq> 0" using spec_insp_time_pos [OF assms(1)] by simp
  show ?thesis
    using assms(2,3)
    by (simp add: generate_next_point_prog2_def cycle_timing_ok [OF assms(1)] cycle_position_ok
        err_bind_Inr spec_total_time_nz vc_point_prog2_def vc_inspiration_prog2_def py_div_ok nz Let_def
        prog2_vc_insp_point_def)
qed

lemma generate_vc_expiration:
  assumes "0 < ie_ratio s" and "ventilation_mode s = ''VC-CMV''"
    and "spec_insp_time s \<le> spec_time_in_cycle s"
  shows "generate_next_point s = Inr (spec_vc_exp_point s)"
proof -
  have nz: "spec_exp_time s \<noteq> 0" using spec_exp_time_pos [OF assms(1)] by simp
  show ?thesis
    using assms(2,3)
    by (simp add: generate_next_point_def cycle_timing_ok [OF assms(1)] cycle_position_ok
        err_bind_Inr spec_total_time_nz vc_point_def vc_expiration_def py_div_ok nz Let_def
        spec_vc_exp_point_def)
qed

lemma generate_prog2_eq:
  assumes "0 < ie_ratio s"
    and "ventilation_mode s = ''VC-CMV'' \<longrightarrow> spec_insp_time s \<le> spec_time_in_cycle s"
  shows "generate_next_point_prog2 s = generate_next_point s"
  using assms(2)
  by (auto simp: generate_next_point_prog2_def generate_next_point_def vc_point_def
      vc_point_prog2_def cycle_timing_ok [OF assms(1)] cycle_position_ok err_bind_Inr
      spec_total_time_nz)

lemma py_div_bind:
  "b \<noteq> 0 \<Longrightarrow> err_bind (py_div a b) f = f (a / b)"
  by (simp add: py_div_def err_bind_def)

lemma pc_phase_cases:
  fixes t :: real
  obtains (ramp) "t < ramp_time"
  | (plateau) "\<not> t < ramp_time" "t < plateau_end"
  | (release) "\<not> t < ramp_time" "\<not> t < plateau_end" "t < insp_time"
  | (expiration) "\<not> t < ramp_time" "\<not> t < plateau_end" "\<not> t < insp_time"
  by blast

lemma pc_pressure_ok:
  assumes "0 \<le> t" and "exp_time \<noteq> 0"
    and "\<not> t < plateau_end \<Longrightarrow> t < insp_time \<Longrightarrow> insp_time - ramp_time - plateau \<noteq> 0"
  shows "pc_pressure s insp_time exp_time ramp_time plateau plateau_end t =
     Inr (if t < ramp_time then peep s + pressure_support s * (1 - exp (- 5 * (t / ramp_time)))
          else if t < plateau_end then peep s + pressure_support s
          else if t < insp_time then
            peep s + pressure_support s *
              exp (- 8 * ((t - ramp_time - plateau) / (insp_time - ramp_time - plateau)))
          else peep s + (peak_pressure s - peep s) * exp (- 5 * ((t - insp_time) / exp_time)))"
proof (cases rule: pc_phase_cases [where t = t and ramp_time = ramp_time
      and plateau_end = plateau_end and insp_time = insp_time])
  case ramp
  then have "ramp_time \<noteq> 0" using assms(1) by auto
  with ramp show ?thesis by (simp only: pc_pressure_def py_div_bind if_True if_False simp_thms)
next
  case plateau
  then show ?thesis by (simp only: pc_pressure_def if_True if_False)
next
  case release
  then have "insp_time - ramp_time - plateau \<noteq> 0" by (intro assms(3))
  with release show ?thesis
    by (simp only: pc_pressure_def py_div_bind if_True if_False simp_thms)
next
  case expiration
  then show ?thesis
    using assms(2) by (simp only: pc_pressure_def py_div_bind if_True if_False simp_thms)
qed

lemma pc_flow_ok:
  assumes "0 \<le> t" and "exp_time \<noteq> 0"
  shows "pc_flow peak_flow insp_time exp_time ramp_time plateau_end t =
     Inr (if t < ramp_time then peak_flow * (1 - (t / ramp_time) ^ 2)
          else if t < plateau_end then peak_flow * 0.3
          else if t < insp_time then peak_flow * 0.1
          else - peak_flow * 0.7 * exp (- 6 * ((t - insp_time) / exp_time)))"
proof (cases rule: pc_phase_cases [where t = t and ramp_time = ramp_time
      and plateau_end = plateau_end and insp_time = insp_time])
  case ramp
  then have "ramp_time \<noteq> 0" using assms(1) by auto
  with ramp show ?thesis by (simp only: pc_flow_def py_div_bind if_True if_False simp_thms)
next
  case plateau
  then show ?thesis by (simp only: pc_flow_def if_True if_False)
next
  case release
  then show ?thesis by (simp only: pc_flow_def if_True if_False)
next
  case expiration
  then show ?thesis
    using assms(2) by (simp only: pc_flow_def py_div_bind if_True if_False simp_thms)
qed

lemma pc_volume_ok:
  assumes "0 \<le> t" and "exp_time \<noteq> 0"
    and "\<not> t < plateau_end \<Longrightarrow> t < insp_time \<Longrightarrow> insp_time - ramp_time - plateau \<noteq> 0"
    and "\<not> t < ramp_time \<Longrightarrow> t < plateau_end \<Longrightarrow> plateau \<noteq> 0"
    and "ramp_time \<le> insp_time" and "plateau_end \<le> insp_time"
  shows "pc_volume s insp_time exp_time ramp_time plateau plateau_end t =
     Inr (if t < ramp_time then tidal_volume s * 0.5 * (1 - cos (pi * (t / ramp_time) / 2))
          else if t < plateau_end then
            tidal_volume s * (0.5 + 0.4 * ((t - ramp_time) / plateau))
          else if t < insp_time then
            tidal_volume s *
              (0.9 + 0.1 * (1 - (t - ramp_time - plateau) / (insp_time - ramp_time - plateau)))
          else tidal_volume s * exp (- 5 * ((t - insp_time) / exp_time)))"
proof (cases rule: pc_phase_cases [where t = t and ramp_time = ramp_time
      and plateau_end = plateau_end and insp_time = insp_time])
  case ramp
  then have "ramp_time \<noteq> 0" "t < insp_time" using assms(1,5) by auto
  with ramp show ?thesis by (simp only: pc_volume_def py_div_bind if_True if_False simp_thms)
next
  case plateau
  then have "t < insp_time" "plateau \<noteq> 0" using assms(6) assms(4) by auto
  with plateau show ?thesis
    by (simp only: pc_volume_def py_div_bind if_True if_False simp_thms)
next
  case release
  then have "insp_time - ramp_time - plateau \<noteq> 0" by (intro assms(3))
  with release show ?thesis
    by (simp only: pc_volume_def py_div_bind if_True if_False simp_thms)
next
  case expiration
  then show ?thesis
    using assms(2) by (simp only: pc_volume_def py_div_bind if_True if_False simp_thms)
qed

lemma pc_phases_eq:
  assumes "resistance s \<noteq> 0" and "0 \<le> t" and "exp_time \<noteq> 0"
    and "\<not> t < plateau_end \<Longrightarrow> t < insp_time \<Longrightarrow> insp_time - ramp_time - plateau \<noteq> 0"
    and "\<not> t < ramp_time \<Longrightarrow> t < plateau_end \<Longrightarrow> plateau \<noteq> 0"
    and "ramp_time \<le> insp_time" and "plateau_end \<le> insp_time"
  shows "pc_phases s insp_time exp_time ramp_time plateau plateau_end t =
     Inr (spec_pc_point s insp_time exp_time ramp_time plateau plateau_end t)"
proof -
  have e: "\<And>q :: real. 0.3 * q = q * 0.3" "\<And>q :: real. 0.1 * q = q * 0.1"
    "\<And>q :: real. - 0.7 * q = - q * 0.7"
    by simp_all
  note rules = pc_phases_def spec_pc_point_def Let_def
    pc_pressure_ok [OF assms(2,3,4)] pc_flow_ok [OF assms(2,3)]
    pc_volume_ok [OF assms(2,3,4,5,6,7)]
    err_bind_Inr py_div_bind [OF assms(1)] e if_True if_False simp_thms
  show ?thesis
  proof (cases rule: pc_phase_cases [where t = t and ramp_time = ramp_time
        and plateau_end = plateau_end and insp_time = insp_time])
    case ramp
    then show ?thesis by (simp only: rules)
  next
    case plateau
    then show ?thesis by (simp only: rules)
  next
    case release
    then show ?thesis by (simp only: rules)
  next
    case expiration
    then show ?thesis by (simp only: rules)
  qed
qed

lemma pc_point_phases:
  "pc_point s total_time insp_time exp_time cycle_progress =
     pc_phases s insp_time exp_time (insp_time * 0.2) (min (plateau_time s) (insp_time * 0.5))
       (insp_time * 0.2 + min (plateau_time s) (insp_time * 0.5)) (cycle_progress * total_time)"
  by (simp add: pc_point_def Let_def)

lemma generate_pc:
  assumes "0 < ie_ratio s" and "ventilation_mode s \<noteq> ''VC-CMV''" and "resistance s \<noteq> 0"
  shows "generate_next_point s =
     Inr (spec_pc_point s (spec_insp_time s) (spec_exp_time s) (spec_insp_time s * 0.2)
            (min (plateau_time s) (spec_insp_time s * 0.5))
            (spec_insp_time s * 0.2 + min (plateau_time s) (spec_insp_time s * 0.5))
            (spec_time_in_cycle s))"
proof -
  let ?ti = "spec_insp_time s" and ?te = "spec_exp_time s" and ?t = "spec_time_in_cycle s"
  let ?ramp = "?ti * 0.2" and ?plat = "min (plateau_time s) (?ti * 0.5)"
  have ti: "0 < ?ti" by (rule spec_insp_time_pos [OF assms(1)])
  have te: "?te \<noteq> 0" using spec_exp_time_pos [OF assms(1)] by simp
  have t0: "0 \<le> ?t" by (rule spec_time_in_cycle_range)
  have r1: "?ramp \<le> ?ti" using ti by simp
  have r2: "?ramp + ?plat \<le> ?ti" using ti by (simp add: min_def)
  have r3: "?plat \<noteq> 0" if "\<not> ?t < ?ramp" "?t < ?ramp + ?plat"
    using that by auto
  have r4: "?ti - ?ramp - ?plat \<noteq> 0" if "\<not> ?t < ?ramp + ?plat" "?t < ?ti"
    using that by auto
  have pt: "pc_point s (spec_total_time s) ?ti ?te (?t / spec_total_time s) =
      Inr (spec_pc_point s ?ti ?te ?ramp ?plat (?ramp + ?plat) ?t)"
    unfolding pc_point_def Let_def progress_times_total
    by (rule pc_phases_eq [OF assms(3) t0 te r4 r3 r1 r2])
  show ?thesis
    using assms(2) pt
    by (simp add: generate_next_point_def cycle_timing_ok [OF assms(1)] cycle_position_ok
        err_bind_Inr)
qed

subsection \<open>Claims about the generator\<close>

lemma cycle_timing_error_iff:
  "cycle_timing s = Inl ZeroDivisionError \<longleftrightarrow> ie_ratio s = 0 \<or> ie_ratio s = - 1"
proof -
  have a: "max 1 (resp_rate s) \<noteq> 0" by simp
  have b: "ie_ratio s \<noteq> 0 \<Longrightarrow> (1 + 1 / ie_ratio s = 0) = (ie_ratio s = - 1)"
    by (auto simp: field_simps add_eq_0_iff)
  have c: "(1 + ie_ratio s = 0) = (ie_ratio s = - 1)" by auto
  show ?thesis
    by (auto simp: cycle_timing_def py_div_def err_bind_def b c)
qed

text \<open>
  Claim C9. The generator divides 60 by \<open>max 1 rate\<close>, which is never zero, so for every
  respiratory rate \<open>r\<close>, also zero or negative, the cycle timing is computed without a
  division by zero; for a positive I:E ratio the inspiratory time is the total time
  divided by \<open>1 + 1 / ie_ratio\<close> and the expiratory time is the total time divided by
  \<open>1 + ie_ratio\<close>, and neither the position in the cycle nor the volume-controlled
  generator raises.
\<close>

theorem cycle_timing_floor:
  assumes "0 < ie_ratio s"
  shows "max 1 r \<noteq> 0
    \<and> cycle_timing (s\<lparr>resp_rate := r\<rparr>) =
        Inr (60 / max 1 r, 60 / max 1 r / (1 + 1 / ie_ratio s), 60 / max 1 r / (1 + ie_ratio s))
    \<and> cycle_position (s\<lparr>resp_rate := r\<rparr>) (60 / max 1 r) \<noteq> Inl ZeroDivisionError
    \<and> generate_next_point (s\<lparr>resp_rate := r, ventilation_mode := ''VC-CMV''\<rparr>)
        \<noteq> Inl ZeroDivisionError"
proof -
  let ?s = "s\<lparr>resp_rate := r\<rparr>"
  let ?v = "s\<lparr>resp_rate := r, ventilation_mode := ''VC-CMV''\<rparr>"
  have ie: "0 < ie_ratio ?s" "0 < ie_ratio ?v" using assms by simp_all
  have 1: "max 1 r \<noteq> 0" by simp
  have 2: "cycle_timing ?s =
        Inr (60 / max 1 r, 60 / max 1 r / (1 + 1 / ie_ratio s), 60 / max 1 r / (1 + ie_ratio s))"
    using cycle_timing_ok [OF ie(1)]
    by (simp add: spec_total_time_def spec_insp_time_def spec_exp_time_def)
  have 3: "cycle_position ?s (60 / max 1 r) \<noteq> Inl ZeroDivisionError"
    using cycle_position_ok [of ?s] by (simp add: spec_total_time_def)
  have 4: "generate_next_point ?v \<noteq> Inl ZeroDivisionError"
  proof (cases "spec_time_in_cycle ?v < spec_insp_time ?v")
    case True
    then show ?thesis using generate_vc_inspiration [OF ie(2)] by simp
  next
    case False
    then show ?thesis using generate_vc_expiration [OF ie(2)] by simp
  qed
  from 1 2 3 4 show ?thesis by blast
qed

theorem cycle_timing_floor_witness:
  "0 < ie_ratio initial_fields
   \<and> cycle_timing (initial_fields\<lparr>resp_rate := 0\<rparr>) = Inr (60, 360 / 11, 300 / 11)"
  using cycle_timing_floor [of initial_fields 0]
  by (simp add: initial_fields_def)












subsection \<open>Claims about the setters\<close>

lemma py_int_examples:
  "py_int (1000 / 30) = 33" "py_int (1000 / 5) = 200" "py_int (1000 / 15) = 66"
  unfolding py_int_def by (simp_all add: floor_eq_iff)

lemma start_simulation_initial: "start_simulation initial_fields = Inr started"
  using py_int_examples(3)
  by (simp add: start_simulation_def update_animation_speed_def initial_fields_def started_def
      py_div_bind timer_stop_def timer_start_def Let_def)

text \<open>
  Claim C8. A call of the respiratory-rate setter (with a rate other than zero, once the
  timer exists) stops the timer and starts it again with the interval
  \<open>clamp (1000 / rate) 10 100\<close>, the quotient cut to whole milliseconds: the timer
  receives \<open>Stop\<close> and then \<open>Start\<close> with the new interval, which is the interval it then
  has. A rate of 30 gives 33 ms and a rate of 5 gives 100 ms.
\<close>

theorem resp_rate_restarts_timer:
  assumes "timer s = Some tm" and "v \<noteq> 0"
  shows "set_resp_rate s v =
      Inr (s\<lparr>resp_rate := v,
            timer := Some \<lparr>active = True, interval = spec_interval_ms v,
                            calls = calls tm @ [Stop, Start (spec_interval_ms v)]\<rparr>\<rparr>)
    \<and> spec_interval_ms 30 = 33 \<and> spec_interval_ms 5 = 100"
proof -
  have "set_resp_rate s v =
      Inr (s\<lparr>resp_rate := v,
            timer := Some \<lparr>active = True, interval = spec_interval_ms v,
                            calls = calls tm @ [Stop, Start (spec_interval_ms v)]\<rparr>\<rparr>)"
    using assms
    by (simp add: set_resp_rate_def update_animation_speed_def py_div_bind timer_stop_def
        timer_start_def spec_interval_ms_def clamp_def Let_def)
  moreover have "spec_interval_ms 30 = 33" "spec_interval_ms 5 = 100"
    using py_int_examples by (simp_all add: spec_interval_ms_def clamp_def)
  ultimately show ?thesis by simp
qed

theorem resp_rate_restarts_timer_witness:
  "timer started = Some \<lparr>active = True, interval = 66, calls = [Stop, Start 66]\<rparr>
   \<and> (30 :: real) \<noteq> 0
   \<and> set_resp_rate started 30 =
       Inr (started\<lparr>resp_rate := 30,
              timer := Some \<lparr>active = True, interval = 33,
                              calls = [Stop, Start 66, Stop, Start 33]\<rparr>\<rparr>)"
proof -
  have t: "timer started = Some \<lparr>active = True, interval = 66, calls = [Stop, Start 66]\<rparr>"
    by (simp add: started_def)
  have n: "(30 :: real) \<noteq> 0" by simp
  show ?thesis
    using resp_rate_restarts_timer [OF t n] t by simp
qed

text \<open>
  Claim C10. The pressure-support setter stores its argument and also overwrites the peak
  pressure with the sum of the current PEEP and the argument; nothing else changes. Every
  other setter leaves the peak pressure as it is (the peak-pressure setter apart, whose
  own field it is), the plain ones changing their own field only; and a later change of
  PEEP leaves the peak pressure at the sum computed with the old PEEP.
\<close>

theorem pressure_support_overwrites_peak_pressure:
  "set_pressure_support s v = s\<lparr>pressure_support := v, peak_pressure := peep s + v\<rparr>
   \<and> pressure_support (set_pressure_support s v) = v
   \<and> peak_pressure (set_pressure_support s v) = peep s + v
   \<and> set_tidal_volume s w = s\<lparr>tidal_volume := w\<rparr>
   \<and> set_peep s w = s\<lparr>peep := w\<rparr>
   \<and> set_peak_pressure s w = s\<lparr>peak_pressure := w\<rparr>
   \<and> set_ie_ratio s w = s\<lparr>ie_ratio := py_round1 w\<rparr>
   \<and> set_plateau_time s w = s\<lparr>plateau_time := w\<rparr>
   \<and> set_resistance s w = s\<lparr>resistance := w\<rparr>
   \<and> set_compliance s w = s\<lparr>compliance := w\<rparr>
   \<and> peak_pressure (set_ventilation_mode s m) = peak_pressure s
   \<and> (\<forall>s'. set_resp_rate s w = Inr s' \<longrightarrow> peak_pressure s' = peak_pressure s)
   \<and> peak_pressure (set_peep (set_pressure_support s v) w) = peep s + v"
proof -
  have "peak_pressure s' = peak_pressure s" if "set_resp_rate s w = Inr s'" for s'
    using that
    by (auto simp: set_resp_rate_def update_animation_speed_def py_div_def err_bind_def Let_def
        split: option.splits if_splits)
  then show ?thesis
    by (simp add: set_pressure_support_def set_tidal_volume_def set_peep_def
        set_peak_pressure_def set_ie_ratio_def set_plateau_time_def set_resistance_def
        set_compliance_def set_ventilation_mode_def reset_buffers_def)
qed

theorem pressure_support_overwrites_peak_pressure_witness:
  "peak_pressure (set_pressure_support started 10) = 15
   \<and> peak_pressure (set_peep (set_pressure_support started 10) 30) = 15
   \<and> set_resp_rate started 30 =
       Inr (started\<lparr>resp_rate := 30,
              timer := Some \<lparr>active = True, interval = 33,
                              calls = [Stop, Start 66, Stop, Start 33]\<rparr>\<rparr>)
   \<and> peak_pressure (started\<lparr>resp_rate := 30,
              timer := Some \<lparr>active = True, interval = 33,
                              calls = [Stop, Start 66, Stop, Start 33]\<rparr>\<rparr>) = peak_pressure started"
proof -
  note T = pressure_support_overwrites_peak_pressure [of started 10 30 "''VC-CMV''"]
  have r: "set_resp_rate started 30 =
       Inr (started\<lparr>resp_rate := 30,
              timer := Some \<lparr>active = True, interval = 33,
                              calls = [Stop, Start 66, Stop, Start 33]\<rparr>\<rparr>)"
    using py_int_examples(1)
    by (simp add: set_resp_rate_def update_animation_speed_def py_div_bind timer_stop_def
        timer_start_def started_def Let_def)
  have p: "peep started + 10 = 15" by (simp add: started_def initial_fields_def)
  from T have a: "peak_pressure (set_pressure_support started 10) = peep started + 10"
    by blast
  from T have b: "peak_pressure (set_peep (set_pressure_support started 10) 30) = peep started + 10"
    by blast
  from T r have c: "peak_pressure (started\<lparr>resp_rate := 30,
              timer := Some \<lparr>active = True, interval = 33,
                              calls = [Stop, Start 66, Stop, Start 33]\<rparr>\<rparr>) = peak_pressure started"
    by blast
  from a b c r p show ?thesis by (simp only:) 
qed

subsection \<open>The visible window\<close>

lemma window_bounds_eq: "window_bounds s = (spec_t_min s, spec_t_max s)"
  by (simp add: window_bounds_def spec_t_min_def spec_t_max_def Let_def)

lemma mask_index_times:
  assumes "length xs = length ts"
  shows "mask_index ts (map P ts) = Inr (map fst (filter (\<lambda>(t, x). P t) (zip ts xs)))"
proof -
  have "map fst (filter snd (zip ts (map P ts))) = map fst (filter (\<lambda>(t, x). P t) (zip ts xs))"
    using assms [symmetric] by (induction ts xs rule: list_induct2) auto
  then show ?thesis by (simp add: mask_index_def)
qed

lemma mask_index_values:
  assumes "length xs = length ts"
  shows "mask_index xs (map P ts) = Inr (map snd (filter (\<lambda>(t, x). P t) (zip ts xs)))"
proof -
  have "map fst (filter snd (zip xs (map P ts))) = map snd (filter (\<lambda>(t, x). P t) (zip ts xs))"
    using assms by (induction xs ts rule: list_induct2) auto
  then show ?thesis using assms by (simp add: mask_index_def)
qed

lemma show_window_eq:
  assumes "length (pressure_data s) = length (time_data s)"
    and "length (flow_data s) = length (time_data s)"
    and "length (volume_data s) = length (time_data s)"
  shows "show_window s =
      Inr (s\<lparr>pressure_curve := curve_of (visible s (pressure_data s)),
            flow_curve := curve_of (visible s (flow_data s)),
            volume_curve := curve_of (visible s (volume_data s)),
            pressure_xrange := (spec_t_min s, spec_t_max s),
            flow_xrange := (spec_t_min s, spec_t_max s),
            volume_xrange := (spec_t_min s, spec_t_max s)\<rparr>)"
proof -
  let ?P = "\<lambda>t. spec_t_min s \<le> t \<and> t \<le> spec_t_max s"
  have t: "mask_index (time_data s) (map ?P (time_data s)) = Inr (map fst (visible s xs))"
    if "length xs = length (time_data s)" for xs
    using mask_index_times [OF that, of ?P] by (simp add: visible_def)
  have v: "mask_index xs (map ?P (time_data s)) = Inr (map snd (visible s xs))"
    if "length xs = length (time_data s)" for xs
    using mask_index_values [OF that, of ?P] by (simp add: visible_def)
  have same: "map fst (visible s xs) = map fst (visible s ys)"
    if "length xs = length (time_data s)" "length ys = length (time_data s)" for xs ys
    using t [OF that(1)] t [OF that(2)] by simp
  show ?thesis
    unfolding show_window_def window_bounds_eq Let_def fst_conv snd_conv
    by (simp add: t [OF assms(1)] v [OF assms(1)] v [OF assms(2)] v [OF assms(3)] err_bind_Inr
        curve_of_def same [OF assms(2) assms(1)] same [OF assms(3) assms(1)])
qed

text \<open>
  Claim C5. For a history whose four buffers have the same length, the window shown on a
  tick has \<open>t_max\<close> the time of the last sample (0 for an empty history) and
  \<open>t_min = max 0 (t_max - window_size)\<close>; each curve receives exactly the samples of the
  history whose time lies between \<open>t_min\<close> and \<open>t_max\<close>, in their order; and the history
  is the same afterwards.
\<close>

theorem visible_window:
  assumes "length (pressure_data s) = length (time_data s)"
    and "length (flow_data s) = length (time_data s)"
    and "length (volume_data s) = length (time_data s)"
  shows "\<exists>s'. show_window s = Inr s'
    \<and> pressure_xrange s' = (max 0 (spec_t_max s - window_size), spec_t_max s)
    \<and> flow_xrange s' = pressure_xrange s' \<and> volume_xrange s' = pressure_xrange s'
    \<and> pressure_curve s' = curve_of (visible s (pressure_data s))
    \<and> flow_curve s' = curve_of (visible s (flow_data s))
    \<and> volume_curve s' = curve_of (visible s (volume_data s))
    \<and> time_data s' = time_data s \<and> pressure_data s' = pressure_data s
    \<and> flow_data s' = flow_data s \<and> volume_data s' = volume_data s"
  by (simp add: show_window_eq [OF assms] spec_t_min_def)

theorem visible_window_witness:
  "length (pressure_data window_sample_state) = length (time_data window_sample_state)
   \<and> length (flow_data window_sample_state) = length (time_data window_sample_state)
   \<and> length (volume_data window_sample_state) = length (time_data window_sample_state)
   \<and> (\<exists>s'. show_window window_sample_state = Inr s'
        \<and> pressure_xrange s' = (2, 12)
        \<and> pressure_curve s' = ([5, 12], [6, 7])
        \<and> flow_curve s' = ([5, 12], [20, - 50])
        \<and> volume_curve s' = ([5, 12], [250, 500])
        \<and> time_data s' = [0, 5, 12])"
proof -
  have h: "length (pressure_data window_sample_state) = length (time_data window_sample_state)"
    "length (flow_data window_sample_state) = length (time_data window_sample_state)"
    "length (volume_data window_sample_state) = length (time_data window_sample_state)"
    by (simp_all add: window_sample_state_def)
  have f: "spec_t_max window_sample_state = 12" "spec_t_min window_sample_state = 2"
    by (simp_all add: spec_t_min_def spec_t_max_def window_sample_state_def window_size_def)
  have v: "visible window_sample_state (pressure_data window_sample_state) = [(5, 6), (12, 7)]"
    "visible window_sample_state (flow_data window_sample_state) = [(5, 20), (12, - 50)]"
    "visible window_sample_state (volume_data window_sample_state) = [(5, 250), (12, 500)]"
    "time_data window_sample_state = [0, 5, 12]"
    by (simp_all add: visible_def f) (simp_all add: window_sample_state_def)
  from visible_window [OF h] obtain s' where
    "show_window window_sample_state = Inr s'
    \<and> pressure_xrange s' = (max 0 (spec_t_max window_sample_state - window_size),
        spec_t_max window_sample_state)
    \<and> flow_xrange s' = pressure_xrange s' \<and> volume_xrange s' = pressure_xrange s'
    \<and> pressure_curve s' = curve_of (visible window_sample_state (pressure_data window_sample_state))
    \<and> flow_curve s' = curve_of (visible window_sample_state (flow_data window_sample_state))
    \<and> volume_curve s' = curve_of (visible window_sample_state (volume_data window_sample_state))
    \<and> time_data s' = time_data window_sample_state"
    by blast
  then have "show_window window_sample_state = Inr s'
        \<and> pressure_xrange s' = (2, 12)
        \<and> pressure_curve s' = ([5, 12], [6, 7])
        \<and> flow_curve s' = ([5, 12], [20, - 50])
        \<and> volume_curve s' = ([5, 12], [250, 500])
        \<and> time_data s' = [0, 5, 12]"
    using f by (simp add: v curve_of_def window_size_def)
  then show ?thesis using h by blast
qed

subsection \<open>The history\<close>

lemma vc_point_time:
  "vc_point s ti te t tc = Inr p \<Longrightarrow> time p = time_index s"
  by (auto simp: vc_point_def vc_inspiration_def vc_expiration_def err_bind_def py_div_def Let_def
      split: if_splits)

lemma vc_point_prog2_time:
  "vc_point_prog2 s ti te t tc = Inr p \<Longrightarrow> time p = time_index s"
  by (auto simp: vc_point_prog2_def vc_inspiration_prog2_def vc_expiration_def err_bind_def
      py_div_def Let_def split: if_splits)

lemma pc_point_time:
  "pc_point s T ti te cp = Inr p \<Longrightarrow> time p = time_index s"
  by (auto simp: pc_point_def pc_phases_def err_bind_def Let_def split: sum.splits)

lemma generate_time:
  "generate_next_point s = Inr p \<Longrightarrow> time p = time_index s"
  by (auto simp: generate_next_point_def err_bind_def
      dest: vc_point_time pc_point_time
      split: sum.splits prod.splits if_splits)

lemma generate_prog2_time:
  "generate_next_point_prog2 s = Inr p \<Longrightarrow> time p = time_index s"
  by (auto simp: generate_next_point_prog2_def err_bind_def
      dest: vc_point_prog2_time pc_point_time
      split: sum.splits prod.splits if_splits)

lemma last_slice_newest: "0 < n \<Longrightarrow> last_slice n xs = newest n xs"
  by (simp add: last_slice_def newest_def)

lemma newest_all: "int (length xs) \<le> n \<Longrightarrow> newest n xs = xs"
  by (simp add: newest_def)

lemma length_newest: "0 < n \<Longrightarrow> int (length (newest n xs)) \<le> n"
  by (simp add: newest_def)

lemma length_newest_eq: "length (newest n xs) = min (length xs) (nat n)"
  by (simp add: newest_def)

lemma append_point_fields:
  assumes "0 < max_points s" and "same_lengths s"
  shows "time_data (append_point s p) = newest (max_points s) (time_data s @ [time p])"
    and "pressure_data (append_point s p) = newest (max_points s) (pressure_data s @ [pressure p])"
    and "flow_data (append_point s p) = newest (max_points s) (flow_data s @ [flow p])"
    and "volume_data (append_point s p) = newest (max_points s) (volume_data s @ [volume p])"
    and "start_time (append_point s p) = start_time s"
    and "max_points (append_point s p) = max_points s"
proof -
  let ?s1 = "s\<lparr>time_data := time_data s @ [time p],
               pressure_data := pressure_data s @ [pressure p],
               flow_data := flow_data s @ [flow p],
               volume_data := volume_data s @ [volume p]\<rparr>"
  have m: "max_points ?s1 = max_points s" by (simp add: max_points_def)
  have l: "length (pressure_data s) = length (time_data s)"
    "length (flow_data s) = length (time_data s)" "length (volume_data s) = length (time_data s)"
    using assms(2) by (simp_all add: same_lengths_def)
  show "time_data (append_point s p) = newest (max_points s) (time_data s @ [time p])"
    using assms(1) by (simp add: append_point_def Let_def m last_slice_newest newest_all)
  show "pressure_data (append_point s p) = newest (max_points s) (pressure_data s @ [pressure p])"
    using assms(1) by (simp add: append_point_def Let_def m last_slice_newest newest_all l)
  show "flow_data (append_point s p) = newest (max_points s) (flow_data s @ [flow p])"
    using assms(1) by (simp add: append_point_def Let_def m last_slice_newest newest_all l)
  show "volume_data (append_point s p) = newest (max_points s) (volume_data s @ [volume p])"
    using assms(1) by (simp add: append_point_def Let_def m last_slice_newest newest_all l)
  show "start_time (append_point s p) = start_time s"
    by (simp add: append_point_def Let_def)
  show "max_points (append_point s p) = max_points s"
    by (simp add: append_point_def Let_def max_points_def)
qed

lemma append_point_same_lengths:
  assumes "0 < max_points s" and "same_lengths s"
  shows "same_lengths (append_point s p)"
  using assms(2)
  by (simp add: same_lengths_def append_point_fields [OF assms] length_newest_eq)

lemma sync_clock_fields:
  "time_data (sync_clock s now) = time_data s" "pressure_data (sync_clock s now) = pressure_data s"
  "flow_data (sync_clock s now) = flow_data s" "volume_data (sync_clock s now) = volume_data s"
  "max_points (sync_clock s now) = max_points s"
  "same_lengths (sync_clock s now) = same_lengths s"
  by (simp_all add: sync_clock_def max_points_def same_lengths_def split: option.splits)

lemma show_window_fields:
  assumes "same_lengths s" and "show_window s = Inr s'"
  shows "time_data s' = time_data s" "pressure_data s' = pressure_data s"
    "flow_data s' = flow_data s" "volume_data s' = volume_data s"
    "start_time s' = start_time s" "max_points s' = max_points s"
proof -
  have "show_window s =
      Inr (s\<lparr>pressure_curve := curve_of (visible s (pressure_data s)),
            flow_curve := curve_of (visible s (flow_data s)),
            volume_curve := curve_of (visible s (volume_data s)),
            pressure_xrange := (spec_t_min s, spec_t_max s),
            flow_xrange := (spec_t_min s, spec_t_max s),
            volume_xrange := (spec_t_min s, spec_t_max s)\<rparr>)"
    using assms(1) by (intro show_window_eq) (simp_all add: same_lengths_def)
  with assms(2) have s': "s' = s\<lparr>pressure_curve := curve_of (visible s (pressure_data s)),
            flow_curve := curve_of (visible s (flow_data s)),
            volume_curve := curve_of (visible s (volume_data s)),
            pressure_xrange := (spec_t_min s, spec_t_max s),
            flow_xrange := (spec_t_min s, spec_t_max s),
            volume_xrange := (spec_t_min s, spec_t_max s)\<rparr>"
    by simp
  show "time_data s' = time_data s" "pressure_data s' = pressure_data s"
    "flow_data s' = flow_data s" "volume_data s' = volume_data s"
    "start_time s' = start_time s" "max_points s' = max_points s"
    by (simp_all add: s' max_points_def)
qed

text \<open>A tick appends the generated point and keeps the newest \<open>max_points\<close> entries;
  this holds for any generator that returns the time index as the time of its point.\<close>

lemma tick_history:
  assumes "\<And>s p. gen s = Inr p \<Longrightarrow> time p = time_index s"
    and "0 < max_points s" and "same_lengths s"
    and "err_bind (gen (sync_clock s now)) (\<lambda>p. show_window (append_point (sync_clock s now) p))
         = Inr s'"
  shows "\<exists>p. gen (sync_clock s now) = Inr p
    \<and> time p = time_index (sync_clock s now)
    \<and> time_data s' = newest (max_points s) (time_data s @ [time p])
    \<and> pressure_data s' = newest (max_points s) (pressure_data s @ [pressure p])
    \<and> flow_data s' = newest (max_points s) (flow_data s @ [flow p])
    \<and> volume_data s' = newest (max_points s) (volume_data s @ [volume p])
    \<and> start_time s' = start_time (sync_clock s now)
    \<and> max_points s' = max_points s"
proof -
  let ?s1 = "sync_clock s now"
  from assms(4) obtain p where p: "gen ?s1 = Inr p"
    and w: "show_window (append_point ?s1 p) = Inr s'"
    by (auto simp: err_bind_def split: sum.splits)
  have m: "0 < max_points ?s1" and l: "same_lengths ?s1"
    using assms(2,3) by (simp_all add: sync_clock_fields)
  note a = append_point_fields [OF m l, of p]
  note f = show_window_fields [OF append_point_same_lengths [OF m l] w]
  show ?thesis
    using p assms(1) [OF p]
    by (simp add: f a sync_clock_fields)
qed

lemma update_graphs_history:
  assumes "0 < max_points s" and "same_lengths s" and "update_graphs s now = Inr s'"
  shows "\<exists>p. generate_next_point (sync_clock s now) = Inr p
    \<and> time p = time_index (sync_clock s now)
    \<and> time_data s' = newest (max_points s) (time_data s @ [time p])
    \<and> pressure_data s' = newest (max_points s) (pressure_data s @ [pressure p])
    \<and> flow_data s' = newest (max_points s) (flow_data s @ [flow p])
    \<and> volume_data s' = newest (max_points s) (volume_data s @ [volume p])
    \<and> start_time s' = start_time (sync_clock s now)
    \<and> max_points s' = max_points s"
proof -
  from assms(3) have "err_bind (generate_next_point (sync_clock s now))
      (\<lambda>p. show_window (append_point (sync_clock s now) p)) = Inr s'"
    by (simp add: update_graphs_def Let_def)
  from tick_history [of generate_next_point, OF generate_time assms(1,2) this]
  show ?thesis .
qed

lemma update_graphs_prog2_history:
  assumes "0 < max_points s" and "same_lengths s" and "update_graphs_prog2 s now = Inr s'"
  shows "\<exists>p. generate_next_point_prog2 (sync_clock s now) = Inr p
    \<and> time p = time_index (sync_clock s now)
    \<and> time_data s' = newest (max_points s) (time_data s @ [time p])
    \<and> pressure_data s' = newest (max_points s) (pressure_data s @ [pressure p])
    \<and> flow_data s' = newest (max_points s) (flow_data s @ [flow p])
    \<and> volume_data s' = newest (max_points s) (volume_data s @ [volume p])
    \<and> start_time s' = start_time (sync_clock s now)
    \<and> max_points s' = max_points s"
proof -
  from assms(3) have "err_bind (generate_next_point_prog2 (sync_clock s now))
      (\<lambda>p. show_window (append_point (sync_clock s now) p)) = Inr s'"
    by (simp add: update_graphs_prog2_def Let_def)
  from tick_history [of generate_next_point_prog2, OF generate_prog2_time assms(1,2) this]
  show ?thesis .
qed

lemma sorted_newest:
  assumes "sorted xs" and "\<forall>x \<in> set xs. x \<le> t"
  shows "sorted (newest n (xs @ [t]))"
proof -
  have "sorted (xs @ [t])" using assms by (simp add: sorted_append)
  then show ?thesis unfolding newest_def by (rule sorted_wrt_drop)
qed

lemma set_newest: "set (newest n xs) \<subseteq> set xs"
  unfolding newest_def by (rule set_drop_subset)

lemma tick_history_ok:
  assumes "history_ok s c" and "c \<le> now"
    and "\<exists>p :: point. time p = time_index (sync_clock s now)
      \<and> time_data s' = newest (max_points s) (time_data s @ [time p])
      \<and> pressure_data s' = newest (max_points s) (pressure_data s @ [pressure p])
      \<and> flow_data s' = newest (max_points s) (flow_data s @ [flow p])
      \<and> volume_data s' = newest (max_points s) (volume_data s @ [volume p])
      \<and> start_time s' = start_time (sync_clock s now)
      \<and> max_points s' = max_points s"
    and "0 < max_points s"
  shows "history_ok s' now \<and> max_points s' = max_points s"
proof -
  have l: "same_lengths s" using assms(1) by (simp add: history_ok_def)
  from assms(3) obtain p :: point where
    t: "time p = time_index (sync_clock s now)"
    and td: "time_data s' = newest (max_points s) (time_data s @ [time p])"
    and pd: "pressure_data s' = newest (max_points s) (pressure_data s @ [pressure p])"
    and fd: "flow_data s' = newest (max_points s) (flow_data s @ [flow p])"
    and vd: "volume_data s' = newest (max_points s) (volume_data s @ [volume p])"
    and st: "start_time s' = start_time (sync_clock s now)"
    and mp: "max_points s' = max_points s"
    by (elim exE conjE)
  have len: "same_lengths s'"
    using l by (simp add: same_lengths_def td pd fd vd length_newest_eq)
  have bound: "int (length (time_data s')) \<le> max_points s'"
    using assms(4) by (simp add: td mp length_newest)
  obtain st' where st': "start_time (sync_clock s now) = Some st'" "st' \<le> now"
    and tp: "time p = real_of_int (now - st') / 1000"
    and old: "\<forall>x \<in> set (time_data s). x \<le> real_of_int (now - st') / 1000"
  proof (cases "start_time s")
    case None
    then have "time_data s = []" using assms(1) by (simp add: history_ok_def)
    with None that [of now] t show ?thesis by (simp add: sync_clock_def)
  next
    case (Some a)
    then have a: "a \<le> c" "\<forall>x \<in> set (time_data s). x \<le> real_of_int (c - a) / 1000"
      using assms(1) by (simp_all add: history_ok_def)
    have "real_of_int (c - a) / 1000 \<le> real_of_int (now - a) / 1000"
      using assms(2) by (simp add: divide_right_mono)
    with a(2) have "\<forall>x \<in> set (time_data s). x \<le> real_of_int (now - a) / 1000"
      by fastforce
    with Some a(1) assms(2) that [of a] t show ?thesis by (simp add: sync_clock_def)
  qed
  have le: "\<forall>x \<in> set (time_data s). x \<le> time p"
    unfolding tp by (rule old)
  have "sorted (time_data s)" using assms(1) by (simp add: history_ok_def)
  then have srt: "sorted (time_data s')"
    unfolding td using le by (rule sorted_newest)
  have upper: "\<forall>x \<in> set (time_data s'). x \<le> real_of_int (now - st') / 1000"
  proof
    fix x
    assume "x \<in> set (time_data s')"
    then have "x \<in> set (time_data s @ [time p])"
      using set_newest [of "max_points s" "time_data s @ [time p]"] unfolding td by blast
    then have "x \<le> time p" using le by auto
    then show "x \<le> real_of_int (now - st') / 1000" unfolding tp .
  qed
  show ?thesis
    using len bound srt upper st' mp by (simp add: history_ok_def st)
qed

lemma update_graphs_history_ok:
  assumes "0 < max_points s" and "history_ok s c" and "c \<le> now"
    and "update_graphs s now = Inr s'"
  shows "history_ok s' now \<and> max_points s' = max_points s"
proof -
  have l: "same_lengths s" using assms(2) by (simp add: history_ok_def)
  from update_graphs_history [OF assms(1) l assms(4)]
  show ?thesis by (intro tick_history_ok [OF assms(2,3) _ assms(1)]) blast
qed

lemma update_graphs_prog2_history_ok:
  assumes "0 < max_points s" and "history_ok s c" and "c \<le> now"
    and "update_graphs_prog2 s now = Inr s'"
  shows "history_ok s' now \<and> max_points s' = max_points s"
proof -
  have l: "same_lengths s" using assms(2) by (simp add: history_ok_def)
  from update_graphs_prog2_history [OF assms(1) l assms(4)]
  show ?thesis by (intro tick_history_ok [OF assms(2,3) _ assms(1)]) blast
qed

lemma reset_history_ok:
  assumes "0 < max_points s"
  shows "history_ok (set_ventilation_mode s m) c"
    and "max_points (set_ventilation_mode s m) = max_points s"
  using assms
  by (simp_all add: set_ventilation_mode_def reset_buffers_def history_ok_def same_lengths_def
      max_points_def)

lemma history_ok_cong:
  assumes "time_data s' = time_data s" and "pressure_data s' = pressure_data s"
    and "flow_data s' = flow_data s" and "volume_data s' = volume_data s"
    and "start_time s' = start_time s" and "max_points s' = max_points s"
  shows "history_ok s' c = history_ok s c"
  by (simp add: history_ok_def same_lengths_def assms cong: option.case_cong)

lemma set_resp_rate_history:
  assumes "set_resp_rate s v = Inr s'"
  shows "history_ok s' c = history_ok s c" and "max_points s' = max_points s"
proof -
  from assms obtain tm where "s' = s\<lparr>resp_rate := v, timer := Some tm\<rparr>"
    by (auto simp: set_resp_rate_def update_animation_speed_def py_div_def err_bind_def Let_def
        split: option.splits if_splits)
  then show "history_ok s' c = history_ok s c" and "max_points s' = max_points s"
    by (simp_all add: history_ok_def same_lengths_def max_points_def cong: option.case_cong)
qed

lemma apply_setting_history:
  assumes "apply_setting s x = Inr s'"
  shows "history_ok s' c = history_ok s c \<and> max_points s' = max_points s"
proof (cases x)
  case (RespRate v)
  with assms show ?thesis using set_resp_rate_history [of s v s'] by simp
next
  case (TidalVolume v)
  with assms show ?thesis
    by (auto simp: set_tidal_volume_def history_ok_def same_lengths_def max_points_def
        cong: option.case_cong)
next
  case (Peep v)
  with assms show ?thesis
    by (auto simp: set_peep_def history_ok_def same_lengths_def max_points_def
        cong: option.case_cong)
next
  case (PeakPressure v)
  with assms show ?thesis
    by (auto simp: set_peak_pressure_def history_ok_def same_lengths_def max_points_def
        cong: option.case_cong)
next
  case (IeRatio v)
  with assms show ?thesis
    by (auto simp: set_ie_ratio_def history_ok_def same_lengths_def max_points_def
        cong: option.case_cong)
next
  case (PressureSupport v)
  with assms show ?thesis
    by (auto simp: set_pressure_support_def history_ok_def same_lengths_def max_points_def
        cong: option.case_cong)
next
  case (PlateauTime v)
  with assms show ?thesis
    by (auto simp: set_plateau_time_def history_ok_def same_lengths_def max_points_def
        cong: option.case_cong)
next
  case (Resistance v)
  with assms show ?thesis
    by (auto simp: set_resistance_def history_ok_def same_lengths_def max_points_def
        cong: option.case_cong)
next
  case (Compliance v)
  with assms show ?thesis
    by (auto simp: set_compliance_def history_ok_def same_lengths_def max_points_def
        cong: option.case_cong)
qed

lemma handle_history_ok:
  assumes "0 < max_points s" and "history_ok s c" and "sorted (c # tick_times [e])"
    and "handle v s e = Inr s'"
  shows "history_ok s' (last (c # tick_times [e])) \<and> max_points s' = max_points s"
proof (cases e)
  case (Tick now)
  show ?thesis
  proof (cases v)
    case Sm3
    with Tick assms show ?thesis using update_graphs_history_ok [of s c now s'] by simp
  next
    case Prog2
    with Tick assms show ?thesis using update_graphs_prog2_history_ok [of s c now s'] by simp
  qed
next
  case (SetVentilationMode m)
  with assms show ?thesis
    using reset_history_ok [OF assms(1)] by (cases v) auto
next
  case (Set x)
  with assms show ?thesis using apply_setting_history [of s x s' c] by simp
qed

lemma tick_times_Cons:
  "tick_times (e # es) = tick_times [e] @ tick_times es"
  by (cases e) simp_all

lemma run_history_ok:
  assumes "0 < max_points s" and "history_ok s c" and "sorted (c # tick_times es)"
    and "run v s es = Inr s'"
  shows "history_ok s' (last (c # tick_times es)) \<and> max_points s' = max_points s"
  using assms
proof (induction es arbitrary: s c)
  case Nil
  then show ?case by simp
next
  case (Cons e es)
  from Cons.prems(4) obtain s1 where h: "handle v s e = Inr s1" and r: "run v s1 es = Inr s'"
    by (auto simp: err_bind_def split: sum.splits)
  let ?c1 = "last (c # tick_times [e])"
  have srt: "sorted (c # tick_times [e] @ tick_times es)"
    using Cons.prems(3) tick_times_Cons [of e es] by simp
  then have s1: "sorted (c # tick_times [e])" by (simp add: sorted_append)
  have s2: "sorted (?c1 # tick_times es)"
    using srt by (cases e) (simp_all)
  from handle_history_ok [OF Cons.prems(1,2) s1 h]
  have ok1: "history_ok s1 ?c1" and mp1: "max_points s1 = max_points s" by simp_all
  have pos1: "0 < max_points s1" using Cons.prems(1) mp1 by simp
  from Cons.IH [OF pos1 ok1 s2 r]
  have "history_ok s' (last (?c1 # tick_times es))" and "max_points s' = max_points s1"
    by simp_all
  moreover have "last (?c1 # tick_times es) = last (c # tick_times (e # es))"
    by (cases e) simp_all
  ultimately show ?case using mp1 by simp
qed

lemma started_fields:
  "resp_rate started = 15" "ie_ratio started = 1.2" "ventilation_mode started = ''VC-CMV''"
  "peep started = 5" "peak_pressure started = 20" "tidal_volume started = 500"
  "points_per_cycle started = 200" "max_cycles started = 3" "start_time started = None"
  "time_data started = []" "pressure_data started = []" "flow_data started = []"
  "volume_data started = []"
  by (simp_all add: started_def initial_fields_def)

lemma first_tick_at:
  "update_graphs started now = Inr (after_first_tick\<lparr>start_time := Some now\<rparr>)"
proof -
  define s1 where "s1 = started\<lparr>start_time := Some now, time_index := 0\<rparr>"
  define s2 where "s2 = s1\<lparr>time_data := [0], pressure_data := [5], flow_data := [38],
    volume_data := [0]\<rparr>"
  have sc: "sync_clock started now = s1"
    by (simp add: sync_clock_def started_fields s1_def)
  have f1: "0 < ie_ratio s1" "ventilation_mode s1 = ''VC-CMV''" "time_index s1 = 0"
    "peep s1 = 5" "peak_pressure s1 = 20" "tidal_volume s1 = 500"
    "time_data s1 = []" "pressure_data s1 = []" "flow_data s1 = []" "volume_data s1 = []"
    "points_per_cycle s1 = 200" "max_cycles s1 = 3"
    by (simp_all add: s1_def started_fields)
  have t1: "spec_insp_time s1 = 24 / 11" "spec_time_in_cycle s1 = 0"
    by (simp_all add: spec_total_time_def spec_insp_time_def spec_time_in_cycle_def s1_def
        started_fields)
  have ph: "spec_time_in_cycle s1 < spec_insp_time s1" by (simp add: t1)
  have g: "generate_next_point s1 = Inr \<lparr>time = 0, pressure = 5, flow = 38, volume = 0\<rparr>"
    using generate_vc_inspiration [OF f1(1,2) ph]
    by (simp add: spec_vc_insp_point_def t1 f1)
  have a: "append_point s1 \<lparr>time = 0, pressure = 5, flow = 38, volume = 0\<rparr> = s2"
    by (simp add: append_point_def Let_def f1 max_points_def s2_def)
  have f2: "time_data s2 = [0]" "pressure_data s2 = [5]" "flow_data s2 = [38]"
    "volume_data s2 = [0]"
    by (simp_all add: s2_def)
  have w2: "spec_t_max s2 = 0" "spec_t_min s2 = 0"
    by (simp_all add: f2 spec_t_max_def spec_t_min_def window_size_def)
  have v: "visible s2 [5] = [(0, 5)]" "visible s2 [38] = [(0, 38)]" "visible s2 [0] = [(0, 0)]"
    by (simp_all add: visible_def w2 f2)
  have sw: "show_window s2 =
      Inr (s2\<lparr>pressure_curve := ([0], [5]), flow_curve := ([0], [38]), volume_curve := ([0], [0]),
            pressure_xrange := (0, 0), flow_xrange := (0, 0), volume_xrange := (0, 0)\<rparr>)"
    by (subst show_window_eq) (simp_all add: f2 v curve_of_def w2)
  have "s2\<lparr>pressure_curve := ([0], [5]), flow_curve := ([0], [38]), volume_curve := ([0], [0]),
            pressure_xrange := (0, 0), flow_xrange := (0, 0), volume_xrange := (0, 0)\<rparr>
        = after_first_tick\<lparr>start_time := Some now\<rparr>"
    by (simp add: after_first_tick_def s2_def s1_def)
  with sw show ?thesis by (simp add: update_graphs_def sc g a err_bind_Inr)
qed

lemma first_tick: "update_graphs started 1000 = Inr after_first_tick"
  using first_tick_at [of 1000] by (simp add: after_first_tick_def)

lemma py_round1_one: "py_round1 1 = 1"
  by (simp add: py_round1_def round_half_even_def Let_def)

lemma after_first_tick_fields:
  "resp_rate after_first_tick = 15" "ventilation_mode after_first_tick = ''VC-CMV''"
  "peep after_first_tick = 5" "peak_pressure after_first_tick = 20"
  "tidal_volume after_first_tick = 500"
  "points_per_cycle after_first_tick = 200" "max_cycles after_first_tick = 3"
  "start_time after_first_tick = Some 1000"
  "time_data after_first_tick = [0]" "pressure_data after_first_tick = [5]"
  "flow_data after_first_tick = [38]" "volume_data after_first_tick = [0]"
  by (simp_all add: after_first_tick_def started_fields)

lemma second_tick:
  "update_graphs (set_ie_ratio after_first_tick 1) 3000 = Inr after_second_tick"
proof -
  define s0 where "s0 = after_first_tick\<lparr>ie_ratio := 1\<rparr>"
  define s1 where "s1 = s0\<lparr>time_index := 2\<rparr>"
  define s2 where "s2 = s1\<lparr>time_data := [0, 2], pressure_data := [5, 5],
    flow_data := [38, - 50], volume_data := [0, 500]\<rparr>"
  have s0: "set_ie_ratio after_first_tick 1 = s0"
    by (simp add: set_ie_ratio_def py_round1_one s0_def)
  have sc: "sync_clock s0 3000 = s1"
    by (simp add: sync_clock_def s0_def s1_def after_first_tick_fields)
  have f1: "0 < ie_ratio s1" "ventilation_mode s1 = ''VC-CMV''" "time_index s1 = 2"
    "peep s1 = 5" "peak_pressure s1 = 20" "tidal_volume s1 = 500"
    "time_data s1 = [0]" "pressure_data s1 = [5]" "flow_data s1 = [38]" "volume_data s1 = [0]"
    "points_per_cycle s1 = 200" "max_cycles s1 = 3"
    by (simp_all add: s1_def s0_def after_first_tick_fields)
  have t1: "spec_insp_time s1 = 2" "spec_exp_time s1 = 2" "spec_time_in_cycle s1 = 2"
    by (simp_all add: spec_total_time_def spec_insp_time_def spec_exp_time_def
        spec_time_in_cycle_def s1_def s0_def after_first_tick_fields)
  have ph: "spec_insp_time s1 \<le> spec_time_in_cycle s1" by (simp add: t1)
  have g: "generate_next_point s1 = Inr \<lparr>time = 2, pressure = 5, flow = - 50, volume = 500\<rparr>"
    using generate_vc_expiration [OF f1(1,2) ph]
    by (simp add: spec_vc_exp_point_def t1 f1)
  have a: "append_point s1 \<lparr>time = 2, pressure = 5, flow = - 50, volume = 500\<rparr> = s2"
    by (simp add: append_point_def Let_def f1 max_points_def s2_def)
  have f2: "time_data s2 = [0, 2]" "pressure_data s2 = [5, 5]" "flow_data s2 = [38, - 50]"
    "volume_data s2 = [0, 500]"
    by (simp_all add: s2_def)
  have w2: "spec_t_max s2 = 2" "spec_t_min s2 = 0"
    by (simp_all add: f2 spec_t_max_def spec_t_min_def window_size_def)
  have v: "visible s2 [5, 5] = [(0, 5), (2, 5)]" "visible s2 [38, - 50] = [(0, 38), (2, - 50)]"
    "visible s2 [0, 500] = [(0, 0), (2, 500)]"
    by (simp_all add: visible_def w2 f2)
  have sw: "show_window s2 =
      Inr (s2\<lparr>pressure_curve := ([0, 2], [5, 5]), flow_curve := ([0, 2], [38, - 50]),
            volume_curve := ([0, 2], [0, 500]),
            pressure_xrange := (0, 2), flow_xrange := (0, 2), volume_xrange := (0, 2)\<rparr>)"
    by (subst show_window_eq) (simp_all add: f2 v curve_of_def w2)
  have "s2\<lparr>pressure_curve := ([0, 2], [5, 5]), flow_curve := ([0, 2], [38, - 50]),
            volume_curve := ([0, 2], [0, 500]),
            pressure_xrange := (0, 2), flow_xrange := (0, 2), volume_xrange := (0, 2)\<rparr>
        = after_second_tick"
    by (simp add: after_second_tick_def s2_def s1_def s0_def)
  with sw show ?thesis by (simp add: update_graphs_def s0 sc g a err_bind_Inr)
qed

lemma two_ticks:
  "run Sm3 started [Tick 1000, Set (IeRatio 1), Tick 3000] = Inr after_second_tick"
  by (simp add: first_tick second_tick err_bind_Inr)

lemma history_ok_started: "history_ok started 0"
  by (simp add: history_ok_def same_lengths_def started_fields max_points_def)

lemma generate_total:
  assumes "0 < ie_ratio s" and "ventilation_mode s = ''VC-CMV'' \<or> resistance s \<noteq> 0"
  shows "\<exists>p. generate_next_point s = Inr p"
proof (cases "ventilation_mode s = ''VC-CMV''")
  case True
  show ?thesis
  proof (cases "spec_time_in_cycle s < spec_insp_time s")
    case True
    with generate_vc_inspiration [OF assms(1) \<open>ventilation_mode s = ''VC-CMV''\<close>]
    show ?thesis by blast
  next
    case False
    with generate_vc_expiration [OF assms(1) \<open>ventilation_mode s = ''VC-CMV''\<close>]
    show ?thesis by auto
  qed
next
  case False
  with assms(2) generate_pc [OF assms(1)] show ?thesis by blast
qed

lemma generate_prog2_total:
  assumes "0 < ie_ratio s" and "ventilation_mode s = ''VC-CMV'' \<or> resistance s \<noteq> 0"
  shows "\<exists>p. generate_next_point_prog2 s = Inr p"
proof (cases "ventilation_mode s = ''VC-CMV'' \<and> spec_time_in_cycle s < spec_insp_time s")
  case True
  with generate_prog2_vc_inspiration [OF assms(1)] show ?thesis by blast
next
  case False
  then have "generate_next_point_prog2 s = generate_next_point s"
    by (intro generate_prog2_eq [OF assms(1)]) auto
  with generate_total [OF assms] show ?thesis by simp
qed

lemma update_graphs_total:
  assumes "0 < ie_ratio s" and "ventilation_mode s = ''VC-CMV'' \<or> resistance s \<noteq> 0"
    and "same_lengths s" and "0 < max_points s"
  shows "\<exists>s'. update_graphs s now = Inr s'"
proof -
  let ?s1 = "sync_clock s now"
  have "0 < ie_ratio ?s1" "ventilation_mode ?s1 = ''VC-CMV'' \<or> resistance ?s1 \<noteq> 0"
    using assms(1,2) by (simp_all add: sync_clock_def split: option.splits)
  from generate_total [OF this] obtain p where p: "generate_next_point ?s1 = Inr p" by blast
  have "same_lengths (append_point ?s1 p)"
    using assms(3,4) by (intro append_point_same_lengths) (simp_all add: sync_clock_fields)
  then have "\<exists>s'. show_window (append_point ?s1 p) = Inr s'"
    using show_window_eq [of "append_point ?s1 p"] by (simp add: same_lengths_def)
  then show ?thesis by (simp add: update_graphs_def p err_bind_Inr)
qed

text \<open>The bound and the equal lengths of the buffers are kept by every event, whatever
  the clock readings are.\<close>

lemma tick_bounded:
  assumes "0 < max_points s" and "same_lengths s"
    and "\<exists>p :: point. time p = time_index (sync_clock s now)
      \<and> time_data s' = newest (max_points s) (time_data s @ [time p])
      \<and> pressure_data s' = newest (max_points s) (pressure_data s @ [pressure p])
      \<and> flow_data s' = newest (max_points s) (flow_data s @ [flow p])
      \<and> volume_data s' = newest (max_points s) (volume_data s @ [volume p])
      \<and> start_time s' = start_time (sync_clock s now)
      \<and> max_points s' = max_points s"
  shows "same_lengths s' \<and> int (length (time_data s')) \<le> max_points s'
    \<and> max_points s' = max_points s"
proof -
  from assms(3) obtain p :: point where
    td: "time_data s' = newest (max_points s) (time_data s @ [time p])"
    and pd: "pressure_data s' = newest (max_points s) (pressure_data s @ [pressure p])"
    and fd: "flow_data s' = newest (max_points s) (flow_data s @ [flow p])"
    and vd: "volume_data s' = newest (max_points s) (volume_data s @ [volume p])"
    and mp: "max_points s' = max_points s"
    by (elim exE conjE)
  have "same_lengths s'"
    using assms(2) by (simp add: same_lengths_def td pd fd vd length_newest_eq)
  moreover have "int (length (time_data s')) \<le> max_points s'"
    using assms(1) by (simp add: td mp length_newest)
  ultimately show ?thesis using mp by simp
qed

lemma apply_setting_buffers:
  assumes "apply_setting s x = Inr s'"
  shows "time_data s' = time_data s \<and> pressure_data s' = pressure_data s
    \<and> flow_data s' = flow_data s \<and> volume_data s' = volume_data s
    \<and> max_points s' = max_points s"
proof (cases x)
  case (RespRate v)
  with assms have "set_resp_rate s v = Inr s'" by simp
  then obtain tm where "s' = s\<lparr>resp_rate := v, timer := Some tm\<rparr>"
    by (auto simp: set_resp_rate_def update_animation_speed_def py_div_def err_bind_def Let_def
        split: option.splits if_splits)
  then show ?thesis by (simp add: max_points_def)
next
  case (TidalVolume v)
  with assms show ?thesis by (auto simp: set_tidal_volume_def max_points_def)
next
  case (Peep v)
  with assms show ?thesis by (auto simp: set_peep_def max_points_def)
next
  case (PeakPressure v)
  with assms show ?thesis by (auto simp: set_peak_pressure_def max_points_def)
next
  case (IeRatio v)
  with assms show ?thesis by (auto simp: set_ie_ratio_def max_points_def)
next
  case (PressureSupport v)
  with assms show ?thesis by (auto simp: set_pressure_support_def max_points_def)
next
  case (PlateauTime v)
  with assms show ?thesis by (auto simp: set_plateau_time_def max_points_def)
next
  case (Resistance v)
  with assms show ?thesis by (auto simp: set_resistance_def max_points_def)
next
  case (Compliance v)
  with assms show ?thesis by (auto simp: set_compliance_def max_points_def)
qed

lemma handle_bounded:
  assumes "0 < max_points s" and "same_lengths s"
    and "int (length (time_data s)) \<le> max_points s" and "handle v s e = Inr s'"
  shows "same_lengths s' \<and> int (length (time_data s')) \<le> max_points s'
    \<and> max_points s' = max_points s"
proof (cases e)
  case (Tick now)
  show ?thesis
  proof (cases v)
    case Sm3
    with Tick assms(4) have "update_graphs s now = Inr s'" by simp
    from update_graphs_history [OF assms(1,2) this]
    show ?thesis by (intro tick_bounded [OF assms(1,2)]) blast
  next
    case Prog2
    with Tick assms(4) have "update_graphs_prog2 s now = Inr s'" by simp
    from update_graphs_prog2_history [OF assms(1,2) this]
    show ?thesis by (intro tick_bounded [OF assms(1,2)]) blast
  qed
next
  case (SetVentilationMode m)
  with assms show ?thesis
    by (cases v)
      (auto simp: set_ventilation_mode_def reset_buffers_def same_lengths_def max_points_def)
next
  case (Set x)
  with assms(4) have "apply_setting s x = Inr s'" by simp
  from apply_setting_buffers [OF this] assms(2,3)
  show ?thesis by (simp add: same_lengths_def)
qed

lemma run_bounded:
  assumes "0 < max_points s" and "same_lengths s"
    and "int (length (time_data s)) \<le> max_points s" and "run v s es = Inr s'"
  shows "same_lengths s' \<and> int (length (time_data s')) \<le> max_points s'
    \<and> max_points s' = max_points s"
  using assms
proof (induction es arbitrary: s)
  case Nil
  then show ?case by simp
next
  case (Cons e es)
  from Cons.prems(4) obtain s1 where h: "handle v s e = Inr s1" and r: "run v s1 es = Inr s'"
    by (auto simp: err_bind_def split: sum.splits)
  from handle_bounded [OF Cons.prems(1,2,3) h]
  have l1: "same_lengths s1" and b1: "int (length (time_data s1)) \<le> max_points s1"
    and mp1: "max_points s1 = max_points s"
    by simp_all
  have pos1: "0 < max_points s1" using Cons.prems(1) mp1 by simp
  from Cons.IH [OF pos1 l1 b1 r] mp1 show ?case by simp
qed

text \<open>
  Claim C4, as amended. Let \<open>max_points = points_per_cycle * max_cycles\<close> be positive, as
  it is throughout (200 times 3), and let the four buffers have the same length, at most
  \<open>max_points\<close> (they are empty at the start). In either file, after any run of ticks, mode
  switches and setter calls, whatever the clock readings of the ticks are, the history
  holds at most \<open>max_points\<close> entries in each of its four buffers; and a further tick leaves
  in each buffer the newest \<open>max_points\<close> entries of the old buffer followed by the new
  sample, that is, entries are dropped from the old end. The times of the history are
  sorted in non-decreasing order after every run in which the clock readings of the ticks
  do not decrease, from a well-formed history.
\<close>

theorem history_bounded_fifo_sorted:
  assumes "0 < max_points s" and "same_lengths s"
    and "int (length (time_data s)) \<le> max_points s" and "run v s es = Inr s'"
  shows "int (length (time_data s')) \<le> max_points s
    \<and> same_lengths s'
    \<and> (\<forall>now s''. handle v s' (Tick now) = Inr s'' \<longrightarrow>
          (\<exists>p. generator v (sync_clock s' now) = Inr p
            \<and> time_data s'' = newest (max_points s) (time_data s' @ [time p])
            \<and> pressure_data s'' = newest (max_points s) (pressure_data s' @ [pressure p])
            \<and> flow_data s'' = newest (max_points s) (flow_data s' @ [flow p])
            \<and> volume_data s'' = newest (max_points s) (volume_data s' @ [volume p])
            \<and> int (length (time_data s'')) \<le> max_points s))
    \<and> (\<forall>c. history_ok s c \<and> sorted (c # tick_times es) \<longrightarrow> sorted (time_data s'))"
proof -
  from run_bounded [OF assms]
  have l: "same_lengths s'" and b: "int (length (time_data s')) \<le> max_points s"
    and mp: "max_points s' = max_points s"
    by simp_all
  have pos: "0 < max_points s'" using assms(1) mp by simp
  have fifo: "\<exists>p. generator v (sync_clock s' now) = Inr p
            \<and> time_data s'' = newest (max_points s) (time_data s' @ [time p])
            \<and> pressure_data s'' = newest (max_points s) (pressure_data s' @ [pressure p])
            \<and> flow_data s'' = newest (max_points s) (flow_data s' @ [flow p])
            \<and> volume_data s'' = newest (max_points s) (volume_data s' @ [volume p])
            \<and> int (length (time_data s'')) \<le> max_points s"
    if t: "handle v s' (Tick now) = Inr s''" for now s''
  proof (cases v)
    case Sm3
    with t have "update_graphs s' now = Inr s''" by simp
    from update_graphs_history [OF pos l this] assms(1) Sm3
    show ?thesis by (auto simp: mp length_newest)
  next
    case Prog2
    with t have "update_graphs_prog2 s' now = Inr s''" by simp
    from update_graphs_prog2_history [OF pos l this] assms(1) Prog2
    show ?thesis by (auto simp: mp length_newest)
  qed
  have srt: "sorted (time_data s')" if "history_ok s c" and "sorted (c # tick_times es)" for c
    using run_history_ok [OF assms(1) that assms(4)] by (simp add: history_ok_def)
  from l b fifo srt show ?thesis by blast
qed

theorem history_bounded_fifo_sorted_witness:
  "0 < max_points started
   \<and> same_lengths started
   \<and> int (length (time_data started)) \<le> max_points started
   \<and> run Sm3 started [Tick 1000, Set (IeRatio 1), Tick 3000] = Inr after_second_tick
   \<and> history_ok started 0
   \<and> sorted (0 # tick_times [Tick 1000, Set (IeRatio 1), Tick 3000])
   \<and> time_data after_second_tick = [0, 2]
   \<and> int (length (time_data after_second_tick)) \<le> max_points started
   \<and> same_lengths after_second_tick
   \<and> sorted (time_data after_second_tick)"
proof -
  have h: "0 < max_points started" "same_lengths started"
    "int (length (time_data started)) \<le> max_points started"
    by (simp_all add: same_lengths_def max_points_def started_fields)
  have c: "history_ok started 0"
    "sorted (0 # tick_times [Tick 1000, Set (IeRatio 1), Tick 3000])"
    by (simp_all add: history_ok_started)
  have t: "time_data after_second_tick = [0, 2]" by (simp add: after_second_tick_def)
  note T = history_bounded_fifo_sorted [OF h two_ticks]
  from T c have "sorted (time_data after_second_tick)" by blast
  moreover from T have "int (length (time_data after_second_tick)) \<le> max_points started"
    and "same_lengths after_second_tick"
    by blast+
  ultimately show ?thesis using h c t two_ticks by blast
qed

text \<open>
  The claim C4 as stated fails for the times: the clock of \<^verbatim>\<open>update_graphs\<close> is a
  \<^verbatim>\<open>QTime\<close>, a time of day, whose readings start again at midnight. After a first tick one
  second before midnight (the reading 86399000) and a second tick half a second after it
  (the reading 500), the history of sm3.py holds the times 0 and \<open>- 86398.5\<close>, which are
  not in non-decreasing order.
\<close>

theorem history_unsorted_across_midnight:
  "0 < max_points started
   \<and> same_lengths started
   \<and> int (length (time_data started)) \<le> max_points started
   \<and> map_sum id time_data (run Sm3 started [Tick 86399000, Tick 500]) = Inr [0, - 86398.5]
   \<and> \<not> sorted [0, - 86398.5 :: real]"
proof -
  define s1 where "s1 = after_first_tick\<lparr>start_time := Some 86399000\<rparr>"
  have h: "0 < max_points started" "same_lengths started"
    "int (length (time_data started)) \<le> max_points started"
    by (simp_all add: same_lengths_def max_points_def started_fields)
  have u1: "update_graphs started 86399000 = Inr s1"
    unfolding s1_def by (rule first_tick_at)
  have f1: "0 < ie_ratio s1" "ventilation_mode s1 = ''VC-CMV'' \<or> resistance s1 \<noteq> 0"
    "same_lengths s1" "0 < max_points s1"
    by (simp_all add: s1_def after_first_tick_def started_fields same_lengths_def max_points_def)
  have d1: "time_data s1 = [0]" "max_points s1 = 600"
    "time_index (sync_clock s1 500) = - 86398.5"
    by (simp_all add: s1_def after_first_tick_def started_fields max_points_def sync_clock_def)
  from update_graphs_total [OF f1, of 500] obtain s2 where u2: "update_graphs s1 500 = Inr s2"
    by blast
  from update_graphs_history [OF f1(4,3) u2]
  have t2: "time_data s2 = [0, - 86398.5]"
    by (auto simp: d1 newest_def)
  have "run Sm3 started [Tick 86399000, Tick 500] = Inr s2"
    by (simp add: u1 u2 err_bind_Inr)
  then have "map_sum id time_data (run Sm3 started [Tick 86399000, Tick 500])
      = Inr [0, - 86398.5]"
    by (simp add: t2)
  then show ?thesis using h by simp
qed

text \<open>
  Claim C6. The ventilation-mode setter (sm3.py) returns with the four buffers empty, the
  start time unset and the time index zero. The next tick therefore takes its own clock
  reading as the start time and generates its sample at time zero, which is then the only
  entry of the history.
\<close>

theorem mode_switch_resets_history:
  "ventilation_mode (set_ventilation_mode s m) = m
   \<and> time_data (set_ventilation_mode s m) = []
   \<and> pressure_data (set_ventilation_mode s m) = []
   \<and> flow_data (set_ventilation_mode s m) = []
   \<and> volume_data (set_ventilation_mode s m) = []
   \<and> start_time (set_ventilation_mode s m) = None
   \<and> time_index (set_ventilation_mode s m) = 0
   \<and> start_time (sync_clock (set_ventilation_mode s m) now) = Some now
   \<and> time_index (sync_clock (set_ventilation_mode s m) now) = 0
   \<and> (\<forall>s'. 0 < max_points s \<longrightarrow> update_graphs (set_ventilation_mode s m) now = Inr s' \<longrightarrow>
         time_data s' = [0] \<and> start_time s' = Some now)"
proof -
  let ?r = "set_ventilation_mode s m"
  have f: "ventilation_mode ?r = m" "time_data ?r = []" "pressure_data ?r = []"
    "flow_data ?r = []" "volume_data ?r = []" "start_time ?r = None" "time_index ?r = 0"
    "max_points ?r = max_points s"
    by (simp_all add: set_ventilation_mode_def reset_buffers_def max_points_def)
  have c: "start_time (sync_clock ?r now) = Some now" "time_index (sync_clock ?r now) = 0"
    by (simp_all add: sync_clock_def f)
  have "time_data s' = [0] \<and> start_time s' = Some now"
    if pos: "0 < max_points s" and u: "update_graphs ?r now = Inr s'" for s'
  proof -
    have pos': "0 < max_points ?r" using pos by (simp add: f)
    have l: "same_lengths ?r" by (simp add: same_lengths_def f)
    from update_graphs_history [OF pos' l u] pos
    show ?thesis by (auto simp: f c newest_def)
  qed
  with f c show ?thesis by blast
qed

theorem mode_switch_resets_history_witness:
  "time_data after_second_tick = [0, 2]
   \<and> 0 < max_points after_second_tick
   \<and> time_data (set_ventilation_mode after_second_tick ''PC-CMV'') = []
   \<and> (\<exists>s'. update_graphs (set_ventilation_mode after_second_tick ''PC-CMV'') 5000 = Inr s'
         \<and> time_data s' = [0] \<and> start_time s' = Some 5000)"
proof -
  let ?r = "set_ventilation_mode after_second_tick ''PC-CMV''"
  have t: "time_data after_second_tick = [0, 2]" by (simp add: after_second_tick_def)
  have pos: "0 < max_points after_second_tick"
    by (simp add: max_points_def after_second_tick_def after_first_tick_fields)
  have v: "0 < ie_ratio ?r" "ventilation_mode ?r = ''VC-CMV'' \<or> resistance ?r \<noteq> 0"
    "same_lengths ?r" "0 < max_points ?r"
    by (simp_all add: set_ventilation_mode_def reset_buffers_def same_lengths_def max_points_def
        after_second_tick_def after_first_tick_def started_def initial_fields_def)
  from update_graphs_total [OF v, of 5000] obtain s' where u: "update_graphs ?r 5000 = Inr s'"
    by blast
  note T = mode_switch_resets_history [of after_second_tick "''PC-CMV''" 5000]
  from T have e: "time_data ?r = []" by blast
  from T pos u have "time_data s' = [0] \<and> start_time s' = Some 5000" by blast
  with u t pos e show ?thesis by blast
qed

subsection \<open>The volume over the inspiratory phase\<close>







end
